theory Spec2Isabelle
  imports Complex_Main
begin

section \<open>NumPy floating-point values\<close>

text \<open>
  The program computes on NumPy \<open>float64\<close> arrays. A value is modelled as a finite
  real number or one of the three IEEE special values. Finite arithmetic is exact:
  rounding, overflow, underflow and the sign of zero are not modelled. What is modelled
  is what NumPy does where exact arithmetic has no answer: a division by zero does not
  raise, it yields \<open>inf\<close>, \<open>-inf\<close> or \<open>nan\<close>, and these values propagate through
  later arithmetic and comparisons as IEEE 754 prescribes.

  Two expressions that are equal as real numbers but computed by different operations
  need not be equal as \<open>float64\<close> values, and a product of nonzero values can underflow
  to zero. The statements about accumulation and about guarded divisions below are
  therefore phrased through the operations the program performs and through zero tests
  on values that the program itself compares with zero.
\<close>

datatype npfloat = Fin real | PInf | NInf | NaN

fun fneg :: "npfloat \<Rightarrow> npfloat" where
  "fneg (Fin a) = Fin (- a)"
| "fneg PInf = NInf"
| "fneg NInf = PInf"
| "fneg NaN = NaN"

fun fadd :: "npfloat \<Rightarrow> npfloat \<Rightarrow> npfloat" where
  "fadd (Fin a) (Fin b) = Fin (a + b)"
| "fadd NaN _ = NaN"
| "fadd _ NaN = NaN"
| "fadd PInf NInf = NaN"
| "fadd NInf PInf = NaN"
| "fadd PInf _ = PInf"
| "fadd NInf _ = NInf"
| "fadd _ PInf = PInf"
| "fadd _ NInf = NInf"

definition fsub :: "npfloat \<Rightarrow> npfloat \<Rightarrow> npfloat" where
  "fsub x y = fadd x (fneg y)"

text \<open>The sign of an infinity times a value: \<open>0 * inf\<close> is \<open>nan\<close>.\<close>

definition signed_inf :: "real \<Rightarrow> npfloat" where
  "signed_inf s = (if s = 0 then NaN else if 0 < s then PInf else NInf)"

fun fmul :: "npfloat \<Rightarrow> npfloat \<Rightarrow> npfloat" where
  "fmul (Fin a) (Fin b) = Fin (a * b)"
| "fmul NaN _ = NaN"
| "fmul _ NaN = NaN"
| "fmul (Fin a) PInf = signed_inf a"
| "fmul (Fin a) NInf = signed_inf (- a)"
| "fmul PInf (Fin b) = signed_inf b"
| "fmul NInf (Fin b) = signed_inf (- b)"
| "fmul PInf PInf = PInf"
| "fmul PInf NInf = NInf"
| "fmul NInf PInf = NInf"
| "fmul NInf NInf = PInf"

text \<open>
  True division. A finite value divided by zero is an infinity of the dividend's sign,
  \<open>0 / 0\<close> is \<open>nan\<close>, a finite value divided by an infinity is zero.
\<close>

fun fdiv :: "npfloat \<Rightarrow> npfloat \<Rightarrow> npfloat" where
  "fdiv (Fin a) (Fin b) = (if b = 0 then signed_inf a else Fin (a / b))"
| "fdiv NaN _ = NaN"
| "fdiv _ NaN = NaN"
| "fdiv (Fin a) PInf = Fin 0"
| "fdiv (Fin a) NInf = Fin 0"
| "fdiv PInf (Fin b) = (if 0 \<le> b then PInf else NInf)"
| "fdiv NInf (Fin b) = (if 0 \<le> b then NInf else PInf)"
| "fdiv PInf PInf = NaN"
| "fdiv PInf NInf = NaN"
| "fdiv NInf PInf = NaN"
| "fdiv NInf NInf = NaN"

fun fabs :: "npfloat \<Rightarrow> npfloat" where
  "fabs (Fin a) = Fin \<bar>a\<bar>"
| "fabs PInf = PInf"
| "fabs NInf = PInf"
| "fabs NaN = NaN"

fun fsqrt :: "npfloat \<Rightarrow> npfloat" where
  "fsqrt (Fin a) = (if a < 0 then NaN else Fin (sqrt a))"
| "fsqrt PInf = PInf"
| "fsqrt NInf = NaN"
| "fsqrt NaN = NaN"

text \<open>Comparisons: every ordering comparison with \<open>nan\<close> is false, \<open>!=\<close> is true.\<close>

fun flt :: "npfloat \<Rightarrow> npfloat \<Rightarrow> bool" where
  "flt (Fin a) (Fin b) = (a < b)"
| "flt NaN _ = False"
| "flt _ NaN = False"
| "flt NInf NInf = False"
| "flt NInf _ = True"
| "flt _ NInf = False"
| "flt PInf _ = False"
| "flt _ PInf = True"

definition fgt :: "npfloat \<Rightarrow> npfloat \<Rightarrow> bool" where
  "fgt x y = flt y x"

text \<open>
  \<open>x != y\<close> on floats. The model has one zero, so structural inequality is IEEE
  inequality except at \<open>nan\<close>, which differs from everything, itself included.
\<close>

definition fne :: "npfloat \<Rightarrow> npfloat \<Rightarrow> bool" where
  "fne x y = (x = NaN \<or> y = NaN \<or> x \<noteq> y)"

definition square :: "npfloat \<Rightarrow> npfloat" where
  "square x = fmul x x"

text \<open>\<open>np.sum\<close> and \<open>np.mean\<close> of a one-dimensional array.\<close>

definition np_sum :: "npfloat list \<Rightarrow> npfloat" where
  "np_sum xs = foldl fadd (Fin 0) xs"

definition np_mean :: "npfloat list \<Rightarrow> npfloat" where
  "np_mean xs = fdiv (np_sum xs) (Fin (real (length xs)))"

section \<open>Errors and array operations\<close>

datatype error =
    ValueError          \<comment> \<open>operands could not be broadcast together\<close>
  | IndexError          \<comment> \<open>index out of bounds, a non-integer index array, a mask of the wrong length\<close>
  | TypeError           \<comment> \<open>\<open>np.average\<close>: shapes of the array and the weights differ\<close>
  | ZeroDivisionError   \<comment> \<open>\<open>np.average\<close>: weights sum to zero\<close>
  | UnboundLocalError   \<comment> \<open>a local variable read before assignment\<close>
  | AttributeError      \<comment> \<open>an attribute read before it was ever set\<close>
  | MinimizerError      \<comment> \<open>anything the external minimizer raises\<close>

text \<open>Sequencing of computations that may raise: the first exception ends the run.\<close>

definition ebind :: "error + 'a \<Rightarrow> ('a \<Rightarrow> error + 'b) \<Rightarrow> error + 'b" where
  "ebind m f = (case m of Inl e \<Rightarrow> Inl e | Inr x \<Rightarrow> f x)"

text \<open>
  An elementwise binary operation on two one-dimensional arrays, with NumPy's
  broadcasting: equal lengths combine pointwise, an array of length one is stretched to
  the other's length, anything else raises.
\<close>

definition np_binop ::
  "(npfloat \<Rightarrow> npfloat \<Rightarrow> npfloat) \<Rightarrow> npfloat list \<Rightarrow> npfloat list \<Rightarrow> error + npfloat list" where
  "np_binop f xs ys =
     (if length xs = length ys then Inr (map2 f xs ys)
      else if length xs = 1 then Inr (map (f (hd xs)) ys)
      else if length ys = 1 then Inr (map (\<lambda>x. f x (hd ys)) xs)
      else Inl ValueError)"

text \<open>
  \<open>np.divide(a, b, where=w != 0.0, out=np.zeros_like(w))\<close>: the output has the shape of
  \<open>w\<close>; an operand of that length is read pointwise, an operand of length one (or a
  scalar, passed here as a one-element list) is broadcast, any other length raises.
  Where the condition fails the zero of \<open>out\<close> stays.
\<close>

definition bcast :: "npfloat list \<Rightarrow> nat \<Rightarrow> npfloat" where
  "bcast a i = (if length a = 1 then a ! 0 else a ! i)"

definition np_divide_where ::
  "npfloat list \<Rightarrow> npfloat list \<Rightarrow> npfloat list \<Rightarrow> error + npfloat list" where
  "np_divide_where a b w =
     (if (length a = length w \<or> length a = 1) \<and> (length b = length w \<or> length b = 1)
      then Inr (map (\<lambda>i. if fne (w ! i) (Fin 0) then fdiv (bcast a i) (bcast b i) else Fin 0)
                  [0..<length w])
      else Inl ValueError)"

text \<open>
  \<open>buf[idx] += vals\<close> with an index array. NumPy reads \<open>buf[idx]\<close>, adds \<open>vals\<close> and
  writes the sums back one index after the other, so where an index repeats the last
  write wins and the earlier contributions are lost. An index array built by
  \<open>np.array\<close> from an empty list has a float dtype and is refused as an index.
\<close>

definition fancy_iadd :: "npfloat list \<Rightarrow> nat list \<Rightarrow> npfloat list \<Rightarrow> error + npfloat list" where
  "fancy_iadd buf idx vals =
     (if idx = [] then Inl IndexError
      else if \<exists>p \<in> set idx. length buf \<le> p then Inl IndexError
      else if length vals \<noteq> length idx \<and> length vals \<noteq> 1 then Inl ValueError
      else Inr (foldl (\<lambda>b (p, v). b[p := v]) buf
                  (zip idx (map (\<lambda>i. fadd (buf ! (idx ! i)) (bcast vals i)) [0..<length idx]))))"

section \<open>The per-segment calibration fitter\<close>

text \<open>
  \<open>IterativeFitter.chi_sq(params, x_data, y_data, sigma)\<close>; \<open>params\<close> is the pair
  (gain, offset), \<open>x_data\<close> the raw data and \<open>y_data\<close> the template.
\<close>

definition chi_sq ::
  "npfloat \<times> npfloat \<Rightarrow> npfloat list \<Rightarrow> npfloat list \<Rightarrow> npfloat list \<Rightarrow> error + npfloat" where
  "chi_sq params x_data y_data sigma =
     ebind (np_binop fsub x_data (map (\<lambda>y. fadd (fmul y (fst params)) (snd params)) y_data))
       (\<lambda>residual.
          let weighted_residual = map (\<lambda>r. fdiv r (square (np_mean sigma))) residual
          in Inr (if 0 < length x_data
                  then fdiv (np_sum (map square weighted_residual)) (Fin (real (length x_data)))
                  else Fin 0))"

text \<open>
  \<open>scipy.optimize.minimize\<close> is an external library: it is a parameter of the model,
  a function of the objective and the initial guess that returns the parameters found or
  raises.
\<close>

type_synonym minimizer =
  "(npfloat \<times> npfloat \<Rightarrow> error + npfloat) \<Rightarrow> npfloat \<times> npfloat \<Rightarrow> error + npfloat \<times> npfloat"

definition fit_to_zodi ::
  "minimizer \<Rightarrow> npfloat list \<Rightarrow> npfloat list \<Rightarrow> npfloat list \<Rightarrow> error + npfloat \<times> npfloat" where
  "fit_to_zodi minimize orbit_data zodi_data orbit_uncs =
     minimize (\<lambda>params. chi_sq params orbit_data zodi_data orbit_uncs) (Fin 1, Fin 0)"

text \<open>\<open>IterativeFitter.adjust_data\<close>; the first argument is the field \<open>self.zodi_data\<close>.\<close>

definition adjust_data ::
  "npfloat list \<Rightarrow> npfloat \<Rightarrow> npfloat \<Rightarrow> npfloat list \<Rightarrow> error + npfloat list" where
  "adjust_data zodi_data gain offset data =
     ebind (np_binop fsub (map (\<lambda>d. fdiv (fsub d offset) gain) data) zodi_data)
       (\<lambda>residual. np_binop fsub data (map (fmul gain) residual))"

text \<open>
  The \<open>while i < n\<close> loop of \<open>iterate_fit\<close>, by the number of rounds left. The last
  argument holds \<open>gain, offset\<close>, unbound until the first round has run.
\<close>

fun fit_rounds ::
  "minimizer \<Rightarrow> npfloat list \<Rightarrow> npfloat list \<Rightarrow> nat \<Rightarrow> npfloat list \<Rightarrow>
   (npfloat \<times> npfloat) option \<Rightarrow> error + (npfloat \<times> npfloat) option" where
  "fit_rounds minimize zodi_data uncs_to_fit 0 data_to_fit fitted = Inr fitted"
| "fit_rounds minimize zodi_data uncs_to_fit (Suc k) data_to_fit fitted =
     ebind (fit_to_zodi minimize data_to_fit zodi_data uncs_to_fit)
       (\<lambda>(gain, offset).
          ebind (adjust_data zodi_data gain offset data_to_fit)
            (\<lambda>data'. fit_rounds minimize zodi_data uncs_to_fit k data' (Some (gain, offset))))"

definition iterate_fit ::
  "minimizer \<Rightarrow> npfloat list \<Rightarrow> npfloat list \<Rightarrow> npfloat list \<Rightarrow> int \<Rightarrow>
   error + npfloat \<times> npfloat" where
  "iterate_fit minimize zodi_data raw_data raw_uncs n =
     (if 0 < length raw_data
      then ebind (fit_rounds minimize zodi_data raw_uncs (nat n) raw_data None)
             (\<lambda>fitted. case fitted of None \<Rightarrow> Inl UnboundLocalError | Some go \<Rightarrow> Inr go)
      else Inr (Fin 0, Fin 0))"

section \<open>The external data\<close>

text \<open>
  What the run reads from storage: per orbit the rows of its CSV file (pixel value,
  pixel uncertainty, HEALPix pixel index) and the \<open>mapdata\<close> of its zodiacal-light
  template file, and the two lists of excluded pixel indices that the constructor
  derives from the stripe-mask file and the pixelisation geometry. A pixel index is a
  natural number; every file is taken to exist.
\<close>

record sky_data =
  orbit_rows :: "nat \<Rightarrow> (npfloat \<times> npfloat \<times> nat) list"
  zodi_map :: "nat \<Rightarrow> npfloat list"
  moon_stripe_inds :: "nat list"
  galaxy_mask_inds :: "nat list"

definition load_orbit_data ::
  "sky_data \<Rightarrow> nat \<Rightarrow> npfloat list \<times> npfloat list \<times> nat list" where
  "load_orbit_data env orbit_num =
     (let all_orbit_data = orbit_rows env orbit_num
      in (map fst all_orbit_data, map (fst \<circ> snd) all_orbit_data, map (snd \<circ> snd) all_orbit_data))"

text \<open>
  \<open>load_zodi_orbit\<close>: the template values at the orbit's pixels, selected by a boolean
  mask over the whole template map and therefore in ascending pixel order, one per
  distinct pixel. The two mismatch messages are printed only.
\<close>

definition load_zodi_orbit :: "sky_data \<Rightarrow> nat \<Rightarrow> nat list \<Rightarrow> error + npfloat list" where
  "load_zodi_orbit env orbit_num pixel_inds =
     (let mapdata = zodi_map env orbit_num
      in if \<exists>p \<in> set pixel_inds. length mapdata \<le> p then Inl IndexError
         else Inr (map (\<lambda>p. mapdata ! p) (filter (\<lambda>p. p \<in> set pixel_inds) [0..<length mapdata])))"

text \<open>
  \<open>[i for i in range(len(pixel_inds)) if pixel_inds[i] in self.moon_stripe_inds or
  pixel_inds[i] in self.galaxy_mask_inds]\<close>
\<close>

definition entries_to_mask :: "sky_data \<Rightarrow> nat list \<Rightarrow> nat list" where
  "entries_to_mask env pixel_inds =
     filter (\<lambda>i. pixel_inds ! i \<in> set (moon_stripe_inds env) \<or>
                 pixel_inds ! i \<in> set (galaxy_mask_inds env)) [0..<length pixel_inds]"

text \<open>\<open>[xs[i] for i in range(len(xs)) if i not in entries]\<close>\<close>

definition masked :: "nat list \<Rightarrow> 'a list \<Rightarrow> 'a list" where
  "masked entries xs = map (\<lambda>i. xs ! i) (filter (\<lambda>i. i \<notin> set entries) [0..<length xs])"

section \<open>The map coadder\<close>

text \<open>
  The fields of \<open>Coadder\<close> that the computation reads and writes. \<open>fsm\<close> and \<open>unc_fsm\<close>
  are the \<open>mapdata\<close> arrays of the current iteration's map and uncertainty map;
  \<open>fsm_prev\<close> is absent until the first iteration has finished. Plotting and the
  writing of map files are not modelled.
\<close>

record coadder =
  iter :: nat
  fsm :: "npfloat list"
  unc_fsm :: "npfloat list"
  fsm_prev :: "npfloat list option"
  numerator :: "npfloat list"
  denominator :: "npfloat list"
  gains :: "npfloat list"
  offsets :: "npfloat list"
  orbit_sizes :: "npfloat list"
  all_gains :: "npfloat list list"
  all_offsets :: "npfloat list list"

text \<open>
  Modelled from the spec: the class \<open>FullSkyMap\<close> of the module \<open>fullskymapping\<close> is
  not among the sources. A new map is a zero-filled array with one entry per pixel; the
  pixel count \<open>npix\<close> (fixed by the resolution 256 in the source) is a parameter.
\<close>

definition set_output_filenames :: "nat \<Rightarrow> coadder \<Rightarrow> coadder" where
  "set_output_filenames npix c =
     c\<lparr> fsm := replicate npix (Fin 0), unc_fsm := replicate npix (Fin 0) \<rparr>"

text \<open>\<open>Coadder.__init__\<close>: the only place where the two accumulation buffers are created.\<close>

definition init :: "nat \<Rightarrow> coadder" where
  "init npix =
     (let c = set_output_filenames npix
                \<lparr> iter = 0, fsm = [], unc_fsm = [], fsm_prev = None, numerator = [],
                  denominator = [], gains = [], offsets = [], orbit_sizes = [],
                  all_gains = [], all_offsets = [] \<rparr>
      in c\<lparr> numerator := map (\<lambda>_. Fin 0) (fsm c), denominator := map (\<lambda>_. Fin 0) (fsm c) \<rparr>)"

text \<open>
  The three stores that end a fit: \<open>self.gains[orbit_num] = gain\<close> and its two
  siblings, each an assignment into a NumPy array, which raises out of range.
\<close>

definition store_fit :: "coadder \<Rightarrow> nat \<Rightarrow> npfloat \<Rightarrow> npfloat \<Rightarrow> nat \<Rightarrow> error + coadder" where
  "store_fit c orbit_num gain offset n =
     (if length (gains c) \<le> orbit_num \<or> length (offsets c) \<le> orbit_num \<or>
         length (orbit_sizes c) \<le> orbit_num
      then Inl IndexError
      else Inr (c\<lparr> gains := (gains c)[orbit_num := gain],
                   offsets := (offsets c)[orbit_num := offset],
                   orbit_sizes := (orbit_sizes c)[orbit_num := Fin (real n)] \<rparr>))"

definition fit_initial_orbit :: "minimizer \<Rightarrow> sky_data \<Rightarrow> coadder \<Rightarrow> nat \<Rightarrow> error + coadder" where
  "fit_initial_orbit minimize env c orbit_num =
     (let (orbit_data, orbit_uncs, pixel_inds) = load_orbit_data env orbit_num;
          entries = entries_to_mask env pixel_inds;
          orbit_data_masked = masked entries orbit_data;
          orbit_uncs_masked = masked entries orbit_uncs
      in ebind (load_zodi_orbit env orbit_num pixel_inds) (\<lambda>zodi_data.
           let zodi_data_masked = masked entries zodi_data
           in ebind (iterate_fit minimize zodi_data_masked orbit_data_masked orbit_uncs_masked 1)
                (\<lambda>(gain, offset).
                   store_fit c orbit_num gain offset (length zodi_data_masked))))"

definition fit_adjusted_orbit :: "minimizer \<Rightarrow> sky_data \<Rightarrow> coadder \<Rightarrow> nat \<Rightarrow> error + coadder" where
  "fit_adjusted_orbit minimize env c orbit_num =
     (let (orbit_data, orbit_uncs, pixel_inds) = load_orbit_data env orbit_num;
          entries = entries_to_mask env pixel_inds;
          orbit_data_masked = masked entries orbit_data;
          orbit_uncs_masked = masked entries orbit_uncs
      in ebind (load_zodi_orbit env orbit_num pixel_inds) (\<lambda>zodi_data.
           let zodi_data_masked = masked entries zodi_data
           in case fsm_prev c of
                None \<Rightarrow> Inl AttributeError
              | Some prev_mapdata \<Rightarrow>
                  if \<exists>p \<in> set pixel_inds. length prev_mapdata \<le> p then Inl IndexError
                  else
                    let prev_itermap = map (\<lambda>p. prev_mapdata ! p) pixel_inds;
                        prev_itermap_masked = masked entries prev_itermap
                    in if length (gains c) \<le> orbit_num then Inl IndexError
                       else
                         let t_gal = map (\<lambda>m. fmul m (gains c ! orbit_num)) prev_itermap_masked
                         in ebind (np_binop fsub orbit_data_masked t_gal) (\<lambda>orbit_data_adj.
                              ebind (iterate_fit minimize zodi_data_masked orbit_data_adj
                                       orbit_uncs_masked 1)
                                (\<lambda>(gain, offset).
                                   store_fit c orbit_num gain offset (length zodi_data_masked)))))"

definition fit_orbit :: "minimizer \<Rightarrow> sky_data \<Rightarrow> coadder \<Rightarrow> nat \<Rightarrow> error + coadder" where
  "fit_orbit minimize env c k =
     (if iter c = 0 then fit_initial_orbit minimize env c k
      else fit_adjusted_orbit minimize env c k)"

definition add_file :: "sky_data \<Rightarrow> coadder \<Rightarrow> nat \<Rightarrow> npfloat \<Rightarrow> npfloat \<Rightarrow> error + coadder" where
  "add_file env c orbit_num gain offset =
     (let (orbit_data, orbit_uncs, pixel_inds) = load_orbit_data env orbit_num;
          entries = entries_to_mask env pixel_inds;
          orbit_data_masked = masked entries orbit_data;
          orbit_uncs_masked = masked entries orbit_uncs;
          pixel_inds_masked = masked entries pixel_inds
      in if 0 < length (filter (\<lambda>u. fne u (Fin 0)) orbit_uncs) \<and> fne gain (Fin 0)
         then
           let cal_data = map (\<lambda>d. fdiv (fsub d offset) gain) orbit_data_masked;
               cal_uncs = map (\<lambda>u. fdiv u (fabs gain)) orbit_uncs_masked
           in ebind (load_zodi_orbit env orbit_num pixel_inds) (\<lambda>zodi_data.
                let zodi_data_masked = masked entries zodi_data
                in ebind (np_binop fsub cal_data zodi_data_masked) (\<lambda>zs_data0.
                     let zs_data = map (\<lambda>z. if flt z (Fin 0) then Fin 0 else z) zs_data0
                     in ebind (np_divide_where zs_data (map square cal_uncs) cal_uncs) (\<lambda>num_add.
                          ebind (fancy_iadd (numerator c) pixel_inds_masked num_add) (\<lambda>numerator'.
                            ebind (np_divide_where [Fin 1] (map square cal_uncs) cal_uncs) (\<lambda>den_add.
                              ebind (fancy_iadd (denominator c) pixel_inds_masked den_add)
                                (\<lambda>denominator'.
                                   Inr (c\<lparr> numerator := numerator',
                                          denominator := denominator' \<rparr>)))))))
         else Inr c)"

text \<open>
  \<open>Coadder.normalize\<close>. Both results have the shape of \<open>self.denominator\<close>.
\<close>

definition normalize_maps :: "coadder \<Rightarrow> error + coadder" where
  "normalize_maps c =
     ebind (np_divide_where (numerator c) (denominator c) (denominator c)) (\<lambda>m.
       ebind (np_divide_where [Fin 1] (denominator c) (denominator c)) (\<lambda>u.
         Inr (c\<lparr> fsm := m, unc_fsm := u \<rparr>)))"

text \<open>The two loops over the orbits and one pass of the outer loop of \<open>run\<close>.\<close>

fun fit_orbits :: "minimizer \<Rightarrow> sky_data \<Rightarrow> coadder \<Rightarrow> nat list \<Rightarrow> error + coadder" where
  "fit_orbits minimize env c [] = Inr c"
| "fit_orbits minimize env c (i # is) =
     ebind (fit_orbit minimize env c i) (\<lambda>c'. fit_orbits minimize env c' is)"

fun add_orbits :: "sky_data \<Rightarrow> coadder \<Rightarrow> nat list \<Rightarrow> error + coadder" where
  "add_orbits env c [] = Inr c"
| "add_orbits env c (j # js) =
     (if length (gains c) \<le> j \<or> length (offsets c) \<le> j then Inl IndexError
      else ebind (add_file env c j (gains c ! j) (offsets c ! j)) (\<lambda>c'. add_orbits env c' js))"

definition outer_iteration ::
  "minimizer \<Rightarrow> sky_data \<Rightarrow> nat \<Rightarrow> nat \<Rightarrow> coadder \<Rightarrow> error + coadder" where
  "outer_iteration minimize env npix num_orbits c =
     ebind (fit_orbits minimize env c [0..<num_orbits]) (\<lambda>c1.
       let c2 = c1\<lparr> all_gains := all_gains c1 @ [gains c1],
                    all_offsets := all_offsets c1 @ [offsets c1] \<rparr>
       in ebind (add_orbits env c2 [0..<num_orbits]) (\<lambda>c3.
            ebind (normalize_maps c3) (\<lambda>c4.
              Inr (set_output_filenames npix
                     (c4\<lparr> fsm_prev := Some (fsm c4), iter := iter c4 + 1 \<rparr>)))))"

fun outer_loop ::
  "minimizer \<Rightarrow> sky_data \<Rightarrow> nat \<Rightarrow> nat \<Rightarrow> nat \<Rightarrow> coadder \<Rightarrow> error + coadder" where
  "outer_loop minimize env npix num_orbits 0 c = Inr c"
| "outer_loop minimize env npix num_orbits (Suc its) c =
     ebind (outer_iteration minimize env npix num_orbits c)
       (\<lambda>c'. outer_loop minimize env npix num_orbits its c')"

text \<open>
  \<open>Coadder.run\<close> with the orbit count and the iteration count as parameters; the
  source fixes them to 150 and 20.
\<close>

definition run_with ::
  "minimizer \<Rightarrow> sky_data \<Rightarrow> nat \<Rightarrow> nat \<Rightarrow> nat \<Rightarrow> coadder \<Rightarrow> error + coadder" where
  "run_with minimize env npix num_orbits iterations c =
     outer_loop minimize env npix num_orbits iterations
       (c\<lparr> gains := replicate num_orbits (Fin 0),
          offsets := replicate num_orbits (Fin 0),
          orbit_sizes := replicate num_orbits (Fin 0) \<rparr>)"

definition run :: "minimizer \<Rightarrow> sky_data \<Rightarrow> nat \<Rightarrow> coadder \<Rightarrow> error + coadder" where
  "run minimize env npix c = run_with minimize env npix 150 20 c"

section \<open>The windowed weighted mean\<close>

text \<open>
  \<open>np.average(a, weights=w)\<close> for one-dimensional arrays: it raises when the shapes
  differ and when the weights sum to exactly zero, and divides otherwise.
\<close>

definition np_average :: "npfloat list \<Rightarrow> npfloat list \<Rightarrow> error + npfloat" where
  "np_average a w =
     (if length a \<noteq> length w then Inl TypeError
      else let scl = np_sum w
           in if scl = Fin 0 then Inl ZeroDivisionError
              else Inr (fdiv (np_sum (map2 fmul a w)) scl))"

text \<open>The slice \<open>xs[lo:hi]\<close> for non-negative bounds.\<close>

definition slice :: "'a list \<Rightarrow> nat \<Rightarrow> nat \<Rightarrow> 'a list" where
  "slice xs lo hi = take (hi - lo) (drop lo xs)"

text \<open>
  The body of the loop of \<open>weighted_mean_filter\<close> at position \<open>p\<close>, and the loop. The
  window size is a count, so \<open>int(size / 2)\<close> is \<open>size div 2\<close>; \<open>max(0, p - step)\<close> is
  the truncating subtraction of the natural numbers.
\<close>

definition weighted_mean_at :: "npfloat list \<Rightarrow> npfloat list \<Rightarrow> nat \<Rightarrow> nat \<Rightarrow> error + npfloat" where
  "weighted_mean_at array weights step p =
     (let min_ind = p - step;
          max_ind = min (length array) (p + step);
          window = slice array min_ind max_ind;
          weights_window0 = slice weights min_ind max_ind;
          total = np_sum weights_window0;
          weights_window = map (\<lambda>w. fdiv w total) weights_window0
      in np_average window weights_window)"

fun collect :: "(nat \<Rightarrow> error + 'a) \<Rightarrow> nat list \<Rightarrow> error + 'a list" where
  "collect f [] = Inr []"
| "collect f (p # ps) = ebind (f p) (\<lambda>x. ebind (collect f ps) (\<lambda>xs. Inr (x # xs)))"

definition weighted_mean_filter :: "npfloat list \<Rightarrow> npfloat list \<Rightarrow> nat \<Rightarrow> error + npfloat list" where
  "weighted_mean_filter array weights window_size =
     (let step = window_size div 2
      in collect (weighted_mean_at array weights step) [0..<length array])"

section \<open>The temporal smoother: cleaning\<close>

text \<open>
  \<open>np.median\<close> of one orbit's timestamps (finite numbers): the middle of the sorted
  values, the mean of the two middle ones for an even count, \<open>nan\<close> for none.
\<close>

definition np_median :: "real list \<Rightarrow> npfloat" where
  "np_median arr =
     (let s = sort arr; n = length s
      in if n = 0 then NaN
         else if odd n then Fin (s ! (n div 2))
         else Fin ((s ! (n div 2 - 1) + s ! (n div 2)) / 2))"

text \<open>
  \<open>scipy.stats.zscore\<close> with its defaults, as its documentation defines it: each
  value minus the mean, divided by the population standard deviation (\<open>np.std\<close>, the
  square root of the mean squared deviation).
\<close>

definition np_std :: "npfloat list \<Rightarrow> npfloat" where
  "np_std a = (let mn = np_mean a in fsqrt (np_mean (map (\<lambda>x. square (fabs (fsub x mn))) a)))"

definition zscore :: "npfloat list \<Rightarrow> npfloat list" where
  "zscore a = (let mn = np_mean a; std = np_std a in map (\<lambda>x. fdiv (fsub x mn) std) a)"

text \<open>\<open>xs[~mask]\<close>: a boolean mask must have the length of the array it indexes.\<close>

definition index_not :: "'a list \<Rightarrow> bool list \<Rightarrow> error + 'a list" where
  "index_not xs msk =
     (if length msk \<noteq> length xs then Inl IndexError
      else Inr (map fst (filter (\<lambda>(x, m). \<not> m) (zip xs msk))))"

text \<open>
  \<open>SplineFitter._clean_data\<close>; its arguments \<open>all_gains\<close> and \<open>all_offsets\<close> are
  written \<open>all_gain_vals\<close> and \<open>all_offset_vals\<close>, the coadder's fields having the names.
\<close>

definition clean_data ::
  "npfloat list \<Rightarrow> npfloat list \<Rightarrow> real list list \<Rightarrow>
   error + npfloat list \<times> npfloat list \<times> npfloat list \<times> npfloat list" where
  "clean_data all_gain_vals all_offset_vals all_mjd_vals =
     (let median_mjd_vals = map np_median all_mjd_vals;
          z_gains = map fabs (zscore all_gain_vals);
          mask_gains = map (\<lambda>z. fgt z (Fin 1)) z_gains;
          z_offsets = map fabs (zscore all_offset_vals);
          mask_offsets = map (\<lambda>z. fgt z (Fin 1)) z_offsets
      in ebind (index_not median_mjd_vals mask_gains) (\<lambda>times_gain_masked.
           ebind (index_not all_gain_vals mask_gains) (\<lambda>gains_masked.
             ebind (index_not median_mjd_vals mask_offsets) (\<lambda>times_offset_masked.
               ebind (index_not all_offset_vals mask_offsets) (\<lambda>offsets_masked.
                 Inr (times_gain_masked, times_offset_masked, gains_masked, offsets_masked))))))"

section \<open>Notions used in the statements\<close>

text \<open>The arithmetic mean of a list of real numbers.\<close>

definition mean :: "real list \<Rightarrow> real" where
  "mean xs = sum_list xs / real (length xs)"

text \<open>
  The z-score of a value against a sequence, the test "absolute z-score strictly
  greater than 1", and the population variance of a list of real numbers.
\<close>

definition z_score_of :: "npfloat list \<Rightarrow> npfloat \<Rightarrow> npfloat" where
  "z_score_of a x = fdiv (fsub x (np_mean a)) (np_std a)"

definition excluded :: "npfloat list \<Rightarrow> npfloat \<Rightarrow> bool" where
  "excluded a x = fgt (fabs (z_score_of a x)) (Fin 1)"

definition variance :: "real list \<Rightarrow> real" where
  "variance xs = mean (map (\<lambda>x. (x - mean xs)\<^sup>2) xs)"

text \<open>
  The rows of an orbit whose pixel is in neither exclusion list: the samples left by the
  mask, as rows.
\<close>

definition unmasked_rows :: "sky_data \<Rightarrow> nat \<Rightarrow> (npfloat \<times> npfloat \<times> nat) list" where
  "unmasked_rows env k =
     filter (\<lambda>row. snd (snd row) \<notin> set (moon_stripe_inds env) \<and>
                   snd (snd row) \<notin> set (galaxy_mask_inds env)) (orbit_rows env k)"

text \<open>
  "The pair \<open>fitted\<close> is what the fitter returns for orbit \<open>k\<close> on outer iteration \<open>it\<close>":
  on iteration 0 from the masked raw samples, on a later iteration from the masked raw
  samples minus the previous map's value at each sample's pixel times \<open>prev_gain\<close>.
\<close>

definition fitted_with ::
  "minimizer \<Rightarrow> sky_data \<Rightarrow> nat \<Rightarrow> npfloat list option \<Rightarrow> npfloat \<Rightarrow> nat \<Rightarrow>
   npfloat \<times> npfloat \<Rightarrow> bool" where
  "fitted_with M env it prev_map prev_gain k fitted =
     (\<exists>zodi. load_zodi_orbit env k (map (snd \<circ> snd) (orbit_rows env k)) = Inr zodi \<and>
        (it = 0 \<longrightarrow>
           iterate_fit M
             (masked (entries_to_mask env (map (snd \<circ> snd) (orbit_rows env k))) zodi)
             (map fst (unmasked_rows env k))
             (map (fst \<circ> snd) (unmasked_rows env k)) 1 = Inr fitted) \<and>
        (0 < it \<longrightarrow>
           (\<exists>prev. prev_map = Some prev \<and>
              iterate_fit M
                (masked (entries_to_mask env (map (snd \<circ> snd) (orbit_rows env k))) zodi)
                (map (\<lambda>row. fsub (fst row) (fmul (prev ! snd (snd row)) prev_gain))
                   (unmasked_rows env k))
                (map (fst \<circ> snd) (unmasked_rows env k)) 1 = Inr fitted)))"

section \<open>Example data\<close>

text \<open>
  A sky of four pixels, pixel 3 excluded by the galaxy mask. Orbit 0 has four samples,
  one at each pixel, the second with uncertainty zero; orbit 1 has two samples, both
  with uncertainty zero; every other orbit is empty.
\<close>

definition example_env :: sky_data where
  "example_env =
     \<lparr> orbit_rows = (\<lambda>k. if k = 0 then [(Fin 7, Fin 2, 0), (Fin 4, Fin 0, 1), (Fin 3, Fin 4, 2),
                                        (Fin 9, Fin 1, 3)]
                          else if k = 1 then [(Fin 5, Fin 0, 0), (Fin 6, Fin 0, 2)]
                          else []),
       zodi_map = (\<lambda>k. [Fin 1, Fin 5, Fin 2, Fin 3]),
       moon_stripe_inds = [],
       galaxy_mask_inds = [3] \<rparr>"

definition example_buffers :: coadder where
  "example_buffers =
     (init 4) \<lparr> numerator := [Fin 6, Fin 0, Fin 5, Fin 0],
               denominator := [Fin 2, Fin 0, Fin 4, Fin 0] \<rparr>"


text \<open>
  Ten fitted gains, nine of them near 1 and one of 50; ten fitted offsets, nine of them
  3 and one 13; and the timestamps of the ten orbits.
\<close>

definition example_gains :: "real list" where
  "example_gains = [98 / 100, 101 / 100, 1, 99 / 100, 50, 102 / 100, 1, 97 / 100, 103 / 100, 1]"

definition example_offsets :: "real list" where
  "example_offsets = [3, 3, 3, 3, 3, 3, 3, 3, 3, 13]"

definition example_mjd :: "real list list" where
  "example_mjd = [[55201, 55203], [55204], [55205], [55206], [55207, 55209, 55208], [55210],
     [55211], [55212], [55213], [55214]]"

text \<open>A minimizer that returns gain 2 and offset 3 whatever it is given.\<close>

definition const_minimizer :: minimizer where
  "const_minimizer objective guess = Inr (Fin 2, Fin 3)"

text \<open>
  The state in which \<open>run\<close> enters its outer loop: the constructor's state with the
  three per-orbit arrays zero-filled.
\<close>

definition start :: "nat \<Rightarrow> nat \<Rightarrow> coadder" where
  "start npix num_orbits =
     (init npix)\<lparr> gains := replicate num_orbits (Fin 0),
                  offsets := replicate num_orbits (Fin 0),
                  orbit_sizes := replicate num_orbits (Fin 0) \<rparr>"

text \<open>
  A sky of two pixels without excluded pixels, on which every orbit has the same two
  samples, each equal to its template value and with uncertainty 1.
\<close>

definition exact_env :: sky_data where
  "exact_env =
     \<lparr> orbit_rows = (\<lambda>k. [(Fin 5, Fin 1, 0), (Fin 7, Fin 1, 1)]),
       zodi_map = (\<lambda>k. [Fin 5, Fin 7]),
       moon_stripe_inds = [],
       galaxy_mask_inds = [] \<rparr>"

text \<open>
  The minimizer where a direct search leaves no doubt: when the objective is exactly
  zero at the initial guess, no point is better, the guess stays the best vertex of the
  simplex and is returned. Elsewhere this model says nothing and raises.
\<close>

definition zero_cost_minimizer :: minimizer where
  "zero_cost_minimizer objective guess =
     (case objective guess of
        Inl e \<Rightarrow> Inl e
      | Inr v \<Rightarrow> if v = Fin 0 then Inr guess else Inl MinimizerError)"

section \<open>Arrays of finite values\<close>

lemma np_binop_same_length:
  "length xs = length ys \<Longrightarrow> np_binop f xs ys = Inr (map2 f xs ys)"
  by (simp add: np_binop_def)

lemma foldl_fadd_Fin: "foldl fadd (Fin a) (map Fin xs) = Fin (a + sum_list xs)"
  by (induction xs arbitrary: a) (simp_all add: add.assoc)

lemma np_sum_Fin: "np_sum (map Fin xs) = Fin (sum_list xs)"
  by (simp add: np_sum_def foldl_fadd_Fin)

lemma np_mean_Fin:
  "xs \<noteq> [] \<Longrightarrow> np_mean (map Fin xs) = Fin (sum_list xs / real (length xs))"
  by (simp add: np_mean_def np_sum_Fin)

section \<open>Normalisation\<close>

text \<open>
  C4. \<open>normalize\<close> returns, and at every pixel of the result: where the accumulated
  denominator is zero, the map value and the uncertainty-map value are both 0;
  elsewhere the map value is numerator / denominator and the uncertainty-map value is
  1 / denominator.
\<close>

theorem normalize_pixel:
  assumes "length (numerator c) = length (denominator c)"
  shows "\<exists>c'. normalize_maps c = Inr c' \<and>
           length (fsm c') = length (denominator c) \<and>
           length (unc_fsm c') = length (denominator c) \<and>
           (\<forall>p < length (denominator c).
              (denominator c ! p = Fin 0 \<longrightarrow> fsm c' ! p = Fin 0 \<and> unc_fsm c' ! p = Fin 0) \<and>
              (denominator c ! p \<noteq> Fin 0 \<longrightarrow>
                 fsm c' ! p = fdiv (numerator c ! p) (denominator c ! p) \<and>
                 unc_fsm c' ! p = fdiv (Fin 1) (denominator c ! p)))"
  using assms
  by (auto simp: normalize_maps_def np_divide_where_def ebind_def bcast_def fne_def)

theorem normalize_pixel_witness:
  "length (numerator example_buffers) = length (denominator example_buffers) \<and>
   (\<exists>c'. normalize_maps example_buffers = Inr c' \<and>
      fsm c' ! 0 = Fin 3 \<and> unc_fsm c' ! 0 = Fin (1 / 2) \<and>
      fsm c' ! 1 = Fin 0 \<and> unc_fsm c' ! 1 = Fin 0)"
proof -
  have len: "length (numerator example_buffers) = length (denominator example_buffers)"
    by (simp add: example_buffers_def)
  from normalize_pixel [OF len] obtain c' where
    ret: "normalize_maps example_buffers = Inr c'" and
    px: "\<forall>p < length (denominator example_buffers).
           (denominator example_buffers ! p = Fin 0 \<longrightarrow>
              fsm c' ! p = Fin 0 \<and> unc_fsm c' ! p = Fin 0) \<and>
           (denominator example_buffers ! p \<noteq> Fin 0 \<longrightarrow>
              fsm c' ! p = fdiv (numerator example_buffers ! p) (denominator example_buffers ! p) \<and>
              unc_fsm c' ! p = fdiv (Fin 1) (denominator example_buffers ! p))"
    by blast
  from px have "fsm c' ! 0 = Fin 3 \<and> unc_fsm c' ! 0 = Fin (1 / 2)"
    by (simp add: example_buffers_def)
  moreover from px have "fsm c' ! 1 = Fin 0 \<and> unc_fsm c' ! 1 = Fin 0"
    by (simp add: example_buffers_def)
  ultimately show ?thesis using len ret by blast
qed

section \<open>The degenerate fit\<close>

text \<open>
  C6. A fit whose sample set is empty returns exactly (0.0, 0.0), whatever the
  minimizer is, and so also with a minimizer that raises whenever it is called: the
  minimizer is not invoked.
\<close>

theorem iterate_fit_empty:
  "iterate_fit minimize zodi_data [] raw_uncs n = Inr (Fin 0, Fin 0) \<and>
   iterate_fit (\<lambda>objective guess. Inl MinimizerError) zodi_data [] raw_uncs n = Inr (Fin 0, Fin 0)"
  by (simp add: iterate_fit_def)

section \<open>The accumulation skip rule\<close>

text \<open>
  C7. For a segment whose gain is exactly zero, or all of whose raw uncertainties are
  zero, \<open>add_file\<close> returns the coadder unchanged: the numerator and the denominator
  buffer are what they were at every pixel.
\<close>

theorem add_file_skip:
  assumes "gain = Fin 0 \<or> (\<forall>row \<in> set (orbit_rows env orbit_num). fst (snd row) = Fin 0)"
  shows "add_file env c orbit_num gain offset = Inr c"
  using assms
  by (auto simp: add_file_def load_orbit_data_def fne_def Let_def filter_empty_conv)

theorem add_file_skip_witness:
  "map (\<lambda>row. fst (snd row)) (orbit_rows example_env 1) = [Fin 0, Fin 0] \<and>
   add_file example_env example_buffers 0 (Fin 0) (Fin 3) = Inr example_buffers \<and>
   add_file example_env example_buffers 1 (Fin 2) (Fin 3) = Inr example_buffers"
proof -
  have uncs: "map (\<lambda>row. fst (snd row)) (orbit_rows example_env 1) = [Fin 0, Fin 0]"
    by (simp add: example_env_def)
  have zero_uncs: "\<forall>row \<in> set (orbit_rows example_env 1). fst (snd row) = Fin 0"
    by (simp add: example_env_def)
  have "add_file example_env example_buffers 0 (Fin 0) (Fin 3) = Inr example_buffers"
    by (rule add_file_skip) simp
  moreover have "add_file example_env example_buffers 1 (Fin 2) (Fin 3) = Inr example_buffers"
    by (rule add_file_skip) (simp add: zero_uncs)
  ultimately show ?thesis using uncs by blast
qed

section \<open>The cost function\<close>

text \<open>
  C2, as the code has it. For a non-empty sample set whose uncertainties have a nonzero
  mean, the cost at (gain, offset) is the mean over the samples of the square of
  (raw - (template * gain + offset)) divided by the square of mean(uncertainties): each
  residual is divided by the squared mean before it is squared and averaged.
\<close>

theorem chi_sq_value:
  assumes "raw \<noteq> []" and "length raw = length template" and "sigma \<noteq> []"
    and "mean sigma \<noteq> 0"
  shows "chi_sq (Fin gain, Fin offset) (map Fin raw) (map Fin template) (map Fin sigma) =
         Inr (Fin (mean (map (\<lambda>(x, y). ((x - (y * gain + offset)) / (mean sigma)\<^sup>2)\<^sup>2)
                           (zip raw template))))"
proof -
  let ?res = "map (\<lambda>(x, y). x - (y * gain + offset)) (zip raw template)"
  have m: "np_mean (map Fin sigma) = Fin (mean sigma)"
    using assms(3) by (simp add: np_mean_Fin mean_def)
  have "np_binop fsub (map Fin raw)
          (map (\<lambda>y. fadd (fmul y (Fin gain)) (Fin offset)) (map Fin template))
        = Inr (map Fin ?res)"
    using assms(2) by (simp add: np_binop_same_length zip_map_map fsub_def split_def comp_def)
  moreover have "map square (map (\<lambda>r. fdiv r (square (Fin (mean sigma)))) (map Fin ?res))
        = map Fin (map (\<lambda>(x, y). ((x - (y * gain + offset)) / (mean sigma)\<^sup>2)\<^sup>2)
                     (zip raw template))"
    using assms(4) by (simp add: square_def power2_eq_square split_def)
  ultimately show ?thesis
    using assms(1,2) by (simp add: chi_sq_def ebind_def m np_sum_Fin mean_def del: map_map)
qed

theorem chi_sq_value_witness:
  "chi_sq (Fin 1, Fin 0) [Fin 1, Fin 5] [Fin 0, Fin 1] [Fin 1, Fin 3] = Inr (Fin (17 / 32))"
proof -
  have "mean [1, 3] = 2" by (simp add: mean_def)
  with chi_sq_value [of "[1, 5]" "[0, 1]" "[1, 3]" 1 0] show ?thesis
    by (simp add: mean_def power2_eq_square)
qed

text \<open>
  One sample with raw value 1, template 0 and uncertainty 2, at gain 1 and offset 0: the
  residual is 1, the cost is the square of 1/4, that is 1/16, and not the square of 1/2.
\<close>

theorem chi_sq_counterexample:
  "chi_sq (Fin 1, Fin 0) [Fin 1] [Fin 0] [Fin 2] = Inr (Fin (1 / 16)) \<and>
   chi_sq (Fin 1, Fin 0) [Fin 1] [Fin 0] [Fin 2] \<noteq> Inr (Fin (((1 - (0 * 1 + 0)) / 2)\<^sup>2 / 1))"
  by (simp add: chi_sq_def np_binop_def ebind_def fsub_def square_def np_mean_def np_sum_def
      power2_eq_square)

section \<open>Masked arrays and indexed addition\<close>


lemma length_masked_eq:
  "length xs = length ys \<Longrightarrow> length (masked entries xs) = length (masked entries ys)"
  by (simp add: masked_def)

lemma distinct_masked: "distinct xs \<Longrightarrow> distinct (masked entries xs)"
  by (auto simp: masked_def distinct_map inj_on_def nth_eq_iff_index_eq)

lemma set_masked: "set (masked entries xs) \<subseteq> set xs"
  by (auto simp: masked_def)

lemma length_zodi_filter:
  assumes "distinct ps" and "\<forall>p \<in> set ps. p < n"
  shows "length (filter (\<lambda>p. p \<in> set ps) [0..<n]) = length ps"
proof -
  have "set (filter (\<lambda>p. p \<in> set ps) [0..<n]) = set ps" using assms(2) by auto
  moreover have "distinct (filter (\<lambda>p. p \<in> set ps) [0..<n])" by simp
  ultimately show ?thesis using assms(1) by (metis distinct_card)
qed

lemma load_zodi_orbit_length:
  assumes "load_zodi_orbit env k ps = Inr zodi" and "distinct ps"
  shows "length zodi = length ps"
proof -
  from assms(1) have rng: "\<forall>p \<in> set ps. p < length (zodi_map env k)"
    and z: "zodi = map (\<lambda>p. zodi_map env k ! p) (filter (\<lambda>p. p \<in> set ps) [0..<length (zodi_map env k)])"
    by (auto simp: load_zodi_orbit_def Let_def not_le split: if_splits)
  show ?thesis unfolding z using length_zodi_filter [OF assms(2) rng] by simp
qed



lemma foldl_update_length:
  "length (foldl (\<lambda>b (p, v). b[p := v]) buf pvs) = length (buf :: 'a list)"
  by (induction pvs rule: rev_induct) (simp_all add: split_def)

lemma foldl_update_other:
  "q \<notin> fst ` set pvs \<Longrightarrow> foldl (\<lambda>b (p, v). b[p := v]) buf pvs ! q = (buf :: 'a list) ! q"
  by (induction pvs rule: rev_induct) (auto simp: split_def)

lemma foldl_update_nth:
  "distinct (map fst pvs) \<Longrightarrow> (p, v) \<in> set pvs \<Longrightarrow> p < length buf \<Longrightarrow>
   foldl (\<lambda>b (p, v). b[p := v]) buf pvs ! p = (v :: 'a)"
proof (induction pvs rule: rev_induct)
  case Nil
  then show ?case by simp
next
  case (snoc x pvs)
  obtain p' v' where x: "x = (p', v')" by (cases x)
  show ?case
  proof (cases "(p, v) = x")
    case True
    with snoc.prems x show ?thesis by (simp add: foldl_update_length)
  next
    case False
    with snoc.prems x have mem: "(p, v) \<in> set pvs" by auto
    with snoc.prems x have "p' \<noteq> p" by (force simp: image_iff)
    with snoc.IH mem snoc.prems x show ?thesis by simp
  qed
qed

lemma fancy_iadd_ok:
  assumes "idx \<noteq> []" and "\<forall>p \<in> set idx. p < length buf" and "length vals = length idx"
  shows "fancy_iadd buf idx vals =
     Inr (foldl (\<lambda>b (p, v). b[p := v]) buf (zip idx (map2 fadd (map (\<lambda>p. buf ! p) idx) vals)))"
proof -
  have "map (\<lambda>i. fadd (buf ! (idx ! i)) (bcast vals i)) [0..<length idx] = map2 fadd (map (\<lambda>p. buf ! p) idx) vals"
    using assms(3) by (auto intro!: nth_equalityI simp: bcast_def)
  moreover have "\<not> (\<exists>p \<in> set idx. length buf \<le> p)" using assms(2) by (auto simp: not_le)
  ultimately show ?thesis using assms(1,3) by (simp add: fancy_iadd_def)
qed

lemma fancy_iadd_nth:
  assumes "fancy_iadd buf idx vals = Inr buf'" and "distinct idx" and "length vals = length idx"
    and "j < length idx"
  shows "buf' ! (idx ! j) = fadd (buf ! (idx ! j)) (vals ! j)"
proof -
  from assms(1) have ne: "idx \<noteq> []" and rng: "\<forall>p \<in> set idx. p < length buf"
    by (auto simp: fancy_iadd_def not_le split: if_splits)
  let ?pvs = "zip idx (map2 fadd (map (\<lambda>p. buf ! p) idx) vals)"
  have b: "buf' = foldl (\<lambda>b (p, v). b[p := v]) buf ?pvs"
    using fancy_iadd_ok [OF ne rng assms(3)] assms(1) by simp
  have fst: "map fst ?pvs = idx" using assms(3) by simp
  have "?pvs ! j = (idx ! j, fadd (buf ! (idx ! j)) (vals ! j))"
    using assms(3,4) by simp
  moreover have "j < length ?pvs" using assms(3,4) by simp
  ultimately have mem: "(idx ! j, fadd (buf ! (idx ! j)) (vals ! j)) \<in> set ?pvs"
    by (metis nth_mem)
  show ?thesis unfolding b
    by (rule foldl_update_nth) (use fst assms(2,4) mem rng in auto)
qed

lemma fancy_iadd_other:
  assumes "fancy_iadd buf idx vals = Inr buf'" and "length vals = length idx" and "q \<notin> set idx"
  shows "buf' ! q = buf ! q" and "length buf' = length buf"
proof -
  from assms(1) have ne: "idx \<noteq> []" and rng: "\<forall>p \<in> set idx. p < length buf"
    by (auto simp: fancy_iadd_def not_le split: if_splits)
  let ?pvs = "zip idx (map2 fadd (map (\<lambda>p. buf ! p) idx) vals)"
  have b: "buf' = foldl (\<lambda>b (p, v). b[p := v]) buf ?pvs"
    using fancy_iadd_ok [OF ne rng assms(2)] assms(1) by simp
  have "fst ` set ?pvs = set idx" using assms(2) by (metis (no_types, lifting) length_map length_zip list.set_map map_fst_zip min.idem)
  then show "buf' ! q = buf ! q" unfolding b using assms(3) by (simp add: foldl_update_other)
  show "length buf' = length buf" unfolding b by (simp add: foldl_update_length)
qed


lemma np_divide_where_ok:
  assumes "length a = length w \<or> length a = 1" and "length b = length w"
  shows "np_divide_where a b w =
     Inr (map (\<lambda>i. if fne (w ! i) (Fin 0) then fdiv (bcast a i) (b ! i) else Fin 0) [0..<length w])"
  using assms by (auto simp: np_divide_where_def bcast_def)

lemma load_orbit_data_lengths:
  assumes "load_orbit_data env k = (orbit_data, orbit_uncs, pixel_inds)"
  shows "length orbit_data = length pixel_inds" and "length orbit_uncs = length pixel_inds"
  using assms by (auto simp: load_orbit_data_def Let_def)

lemma bcast_nth: "i < length a \<Longrightarrow> bcast a i = a ! i"
  by (auto simp: bcast_def)

lemma fne_zero: "fne u (Fin 0) = (u \<noteq> Fin 0)"
  by (auto simp: fne_def)

lemma example_orbit0:
  "load_orbit_data example_env 0 =
     ([Fin 7, Fin 4, Fin 3, Fin 9], [Fin 2, Fin 0, Fin 4, Fin 1], [0, 1, 2, 3])"
  "load_zodi_orbit example_env 0 [0, 1, 2, 3] = Inr [Fin 1, Fin 5, Fin 2, Fin 3]"
  "entries_to_mask example_env [0, 1, 2, 3] = [3]"
  by (simp_all add: load_orbit_data_def load_zodi_orbit_def entries_to_mask_def example_env_def
      upt_rec)

lemma masked_example: "masked [3] [a, b, c, d] = [a, b, c]"
  by (simp add: masked_def upt_rec)

section \<open>Accumulation\<close>

text \<open>
  What one sample of a segment adds, for arbitrary float values. The segment is not
  skipped and its pixel indices are distinct and inside the buffers; \<open>cu\<close> is the
  calibrated uncertainty of the \<open>j\<close>-th sample left by the mask and \<open>z\<close> its residual
  against the template entry at the same position \<open>j\<close>.
\<close>

lemma add_file_sample:
  assumes load: "load_orbit_data env k = (orbit_data, orbit_uncs, pixel_inds)"
    and zodi: "load_zodi_orbit env k pixel_inds = Inr zodi_data"
    and entries: "entries = entries_to_mask env pixel_inds"
    and not_skipped: "\<exists>u \<in> set orbit_uncs. u \<noteq> Fin 0" "fne gain (Fin 0)"
    and dist: "distinct pixel_inds"
    and rng: "\<forall>p \<in> set pixel_inds. p < length (numerator c) \<and> p < length (denominator c)"
    and j: "j < length (masked entries pixel_inds)"
    and pj: "masked entries pixel_inds ! j = p"
    and cu: "cu = fdiv (masked entries orbit_uncs ! j) (fabs gain)"
    and z: "z = fsub (fdiv (fsub (masked entries orbit_data ! j) offset) gain)
                   (masked entries zodi_data ! j)"
  shows "\<exists>c'. add_file env c k gain offset = Inr c' \<and>
      numerator c' ! p = fadd (numerator c ! p)
         (if cu \<noteq> Fin 0 then fdiv (if flt z (Fin 0) then Fin 0 else z) (square cu) else Fin 0) \<and>
      denominator c' ! p = fadd (denominator c ! p)
         (if cu \<noteq> Fin 0 then fdiv (Fin 1) (square cu) else Fin 0) \<and>
      (\<forall>q. q \<notin> set (masked entries pixel_inds) \<longrightarrow>
         numerator c' ! q = numerator c ! q \<and> denominator c' ! q = denominator c ! q)"
proof -
  define dm where "dm = masked entries orbit_data"
  define um where "um = masked entries orbit_uncs"
  define pm where "pm = masked entries pixel_inds"
  define zm where "zm = masked entries zodi_data"
  define cal_data where "cal_data = map (\<lambda>d. fdiv (fsub d offset) gain) dm"
  define cal_uncs where "cal_uncs = map (\<lambda>u. fdiv u (fabs gain)) um"
  define zs where "zs = map (\<lambda>z. if flt z (Fin 0) then Fin 0 else z) (map2 fsub cal_data zm)"
  define num_add where "num_add = map (\<lambda>i. if fne (cal_uncs ! i) (Fin 0)
      then fdiv (bcast zs i) (map square cal_uncs ! i) else Fin 0) [0..<length cal_uncs]"
  define den_add where "den_add = map (\<lambda>i. if fne (cal_uncs ! i) (Fin 0)
      then fdiv (bcast [Fin 1] i) (map square cal_uncs ! i) else Fin 0) [0..<length cal_uncs]"
  note lens = load_orbit_data_lengths [OF load] load_zodi_orbit_length [OF zodi dist]
  have len: "length dm = length pm" "length um = length pm" "length zm = length pm"
    unfolding dm_def um_def pm_def zm_def using lens by (auto intro: length_masked_eq)
  have jm: "j < length pm" using j by (simp add: pm_def)
  have zs_len: "length zs = length pm" by (simp add: zs_def cal_data_def len)
  have cu_len: "length cal_uncs = length pm" by (simp add: cal_uncs_def len)
  have binop: "np_binop fsub cal_data zm = Inr (map2 fsub cal_data zm)"
    by (rule np_binop_same_length) (simp add: cal_data_def len)
  have num_div: "np_divide_where zs (map square cal_uncs) cal_uncs = Inr num_add"
    unfolding num_add_def by (rule np_divide_where_ok) (simp_all add: zs_len cu_len)
  have den_div: "np_divide_where [Fin 1] (map square cal_uncs) cal_uncs = Inr den_add"
    unfolding den_add_def by (rule np_divide_where_ok) simp_all
  have pm_ne: "pm \<noteq> []" using jm by auto
  have pm_rng: "\<forall>p \<in> set pm. p < length (numerator c)" "\<forall>p \<in> set pm. p < length (denominator c)"
    using rng set_masked [of entries pixel_inds] by (auto simp: pm_def)
  have na_len: "length num_add = length pm" "length den_add = length pm"
    by (simp_all add: num_add_def den_add_def cu_len)
  obtain num' where num': "fancy_iadd (numerator c) pm num_add = Inr num'"
    using fancy_iadd_ok [OF pm_ne pm_rng(1) na_len(1)] by blast
  obtain den' where den': "fancy_iadd (denominator c) pm den_add = Inr den'"
    using fancy_iadd_ok [OF pm_ne pm_rng(2) na_len(2)] by blast
  have dpm: "distinct pm" unfolding pm_def by (rule distinct_masked [OF dist])
  have run: "add_file env c k gain offset = Inr (c\<lparr>numerator := num', denominator := den'\<rparr>)"
  proof -
    have guard: "0 < length (filter (\<lambda>u. fne u (Fin 0)) orbit_uncs) \<and> fne gain (Fin 0)"
      using not_skipped by (auto simp: fne_zero filter_empty_conv)
    show ?thesis
      unfolding add_file_def load
      using guard binop num_div den_div num' den'
      by (simp add: Let_def ebind_def zodi entries [symmetric]
          dm_def [symmetric] um_def [symmetric] pm_def [symmetric] zm_def [symmetric]
          cal_data_def [symmetric] cal_uncs_def [symmetric] zs_def [symmetric] del: map_map)
  qed
  have pmj: "pm ! j = p" using pj by (simp add: pm_def)
  have cu_j: "cal_uncs ! j = cu"
    using jm len by (simp add: cal_uncs_def um_def cu)
  have zs_j: "zs ! j = (if flt z (Fin 0) then Fin 0 else z)"
    using jm len by (simp add: zs_def cal_data_def dm_def zm_def z)
  have num_j: "num_add ! j =
      (if cu \<noteq> Fin 0 then fdiv (if flt z (Fin 0) then Fin 0 else z) (square cu) else Fin 0)"
    using jm cu_len zs_len cu_j zs_j
    by (simp add: num_add_def bcast_nth fne_zero)
  have den_j: "den_add ! j = (if cu \<noteq> Fin 0 then fdiv (Fin 1) (square cu) else Fin 0)"
    using jm cu_len cu_j
    by (simp add: den_add_def bcast_def fne_zero)
  have "num' ! p = fadd (numerator c ! p) (num_add ! j)"
    using fancy_iadd_nth [OF num' dpm na_len(1) jm] pmj by simp
  moreover have "den' ! p = fadd (denominator c ! p) (den_add ! j)"
    using fancy_iadd_nth [OF den' dpm na_len(2) jm] pmj by simp
  moreover have "\<forall>q. q \<notin> set pm \<longrightarrow> num' ! q = numerator c ! q \<and> den' ! q = denominator c ! q"
    using fancy_iadd_other(1) [OF num' na_len(1)] fancy_iadd_other(1) [OF den' na_len(2)] by simp
  ultimately show ?thesis using run num_j den_j by (simp add: pm_def)
qed




section \<open>Guarded and unguarded divisions\<close>

lemma ebind_eq_Inr: "(ebind m f = Inr y) = (\<exists>x. m = Inr x \<and> f x = Inr y)"
  by (cases m) (simp_all add: ebind_def)

text \<open>
  C8, as the code has it. The divisions of the accumulation step and of the
  normalisation step stand behind a test with a zero fallback. A segment whose gain is
  exactly zero is skipped, so nothing is divided by the gain. In a segment that is not
  skipped, a sample whose raw uncertainty is exactly zero adds exactly 0 to the
  numerator and to the denominator at its pixel, whatever the sample's value, the
  template and the offset are. And \<open>normalize\<close> returns with the map value 0 and the
  uncertainty 0 at every pixel whose denominator is exactly zero. The test of the
  accumulation step is on the calibrated uncertainty; the divisor is its square.
\<close>

theorem guarded_divisions_zero_fallback:
  assumes load: "load_orbit_data env k = (orbit_data, orbit_uncs, pixel_inds)"
    and zodi: "load_zodi_orbit env k pixel_inds = Inr zodi_data"
    and entries: "entries = entries_to_mask env pixel_inds"
    and not_skipped: "\<exists>u \<in> set orbit_uncs. u \<noteq> Fin 0" "g \<noteq> 0"
    and dist: "distinct pixel_inds"
    and rng: "\<forall>p \<in> set pixel_inds. p < length (numerator c) \<and> p < length (denominator c)"
    and len: "length (numerator c) = length (denominator c)"
    and j: "j < length (masked entries pixel_inds)"
    and sample: "masked entries orbit_uncs ! j = Fin 0" "masked entries pixel_inds ! j = p"
  shows "add_file env c k (Fin 0) offset = Inr c \<and>
     (\<exists>c'. add_file env c k (Fin g) offset = Inr c' \<and>
        numerator c' ! p = fadd (numerator c ! p) (Fin 0) \<and>
        denominator c' ! p = fadd (denominator c ! p) (Fin 0)) \<and>
     (\<exists>c''. normalize_maps c = Inr c'' \<and>
        (\<forall>q < length (denominator c). denominator c ! q = Fin 0 \<longrightarrow>
           fsm c'' ! q = Fin 0 \<and> unc_fsm c'' ! q = Fin 0))"
proof (intro conjI)
  show "add_file env c k (Fin 0) offset = Inr c"
    by (simp add: add_file_def fne_def Let_def split_def)
next
  have gain: "fne (Fin g) (Fin 0)" using not_skipped(2) by (simp add: fne_def)
  have cu: "Fin 0 = fdiv (masked entries orbit_uncs ! j) (fabs (Fin g))"
    using not_skipped(2) by (simp add: sample(1))
  from add_file_sample [OF load zodi entries not_skipped(1) gain dist rng j sample(2) cu refl]
  show "\<exists>c'. add_file env c k (Fin g) offset = Inr c' \<and>
        numerator c' ! p = fadd (numerator c ! p) (Fin 0) \<and>
        denominator c' ! p = fadd (denominator c ! p) (Fin 0)"
    by auto
next
  show "\<exists>c''. normalize_maps c = Inr c'' \<and>
        (\<forall>q < length (denominator c). denominator c ! q = Fin 0 \<longrightarrow>
           fsm c'' ! q = Fin 0 \<and> unc_fsm c'' ! q = Fin 0)"
    using len
    by (auto simp: normalize_maps_def np_divide_where_def ebind_def bcast_def fne_def)
qed

theorem guarded_divisions_zero_fallback_witness:
  "add_file example_env
     (example_buffers\<lparr>numerator := [Fin 6, Fin 7, Fin 5, Fin 0],
                      denominator := [Fin 2, Fin 3, Fin 4, Fin 0]\<rparr>) 0 (Fin 0) NaN =
   Inr (example_buffers\<lparr>numerator := [Fin 6, Fin 7, Fin 5, Fin 0],
                        denominator := [Fin 2, Fin 3, Fin 4, Fin 0]\<rparr>) \<and>
   (\<exists>c'. add_file example_env
            (example_buffers\<lparr>numerator := [Fin 6, Fin 7, Fin 5, Fin 0],
                             denominator := [Fin 2, Fin 3, Fin 4, Fin 0]\<rparr>) 0 (Fin 2) NaN =
          Inr c' \<and>
      numerator c' ! 1 = Fin 7 \<and> denominator c' ! 1 = Fin 3) \<and>
   (\<exists>c''. normalize_maps
            (example_buffers\<lparr>numerator := [Fin 6, Fin 7, Fin 5, Fin 0],
                             denominator := [Fin 2, Fin 3, Fin 4, Fin 0]\<rparr>) = Inr c'' \<and>
      fsm c'' ! 3 = Fin 0 \<and> unc_fsm c'' ! 3 = Fin 0)"
proof -
  let ?c = "example_buffers\<lparr>numerator := [Fin 6, Fin 7, Fin 5, Fin 0],
                            denominator := [Fin 2, Fin 3, Fin 4, Fin 0]\<rparr>"
  note ex = example_orbit0
  note e = ex(3) [symmetric]
  have ns: "\<exists>u \<in> set [Fin 2, Fin 0, Fin 4, Fin 1]. u \<noteq> Fin 0" "(2::real) \<noteq> 0" by simp_all
  have d: "distinct [0::nat, 1, 2, 3]" by simp
  have r: "\<forall>p \<in> set [0::nat, 1, 2, 3]. p < length (numerator ?c) \<and> p < length (denominator ?c)"
    by simp
  have l: "length (numerator ?c) = length (denominator ?c)" by simp
  have j: "1 < length (masked [3] [0::nat, 1, 2, 3])" by (simp add: masked_example)
  have s: "masked [3] [Fin 2, Fin 0, Fin 4, Fin 1] ! 1 = Fin 0"
    "masked [3] [0::nat, 1, 2, 3] ! 1 = 1"
    by (simp_all add: masked_example)
  note step = guarded_divisions_zero_fallback [OF ex(1) ex(2) e ns d r l j s, of NaN]
  from step have skip: "add_file example_env ?c 0 (Fin 0) NaN = Inr ?c" by blast
  from step have acc: "\<exists>c'. add_file example_env ?c 0 (Fin 2) NaN = Inr c' \<and>
      numerator c' ! 1 = Fin 7 \<and> denominator c' ! 1 = Fin 3"
    by simp
  from step obtain c'' where norm: "normalize_maps ?c = Inr c''"
    and zero: "\<forall>q < length (denominator ?c). denominator ?c ! q = Fin 0 \<longrightarrow>
                 fsm c'' ! q = Fin 0 \<and> unc_fsm c'' ! q = Fin 0"
    by blast
  from zero have "fsm c'' ! 3 = Fin 0 \<and> unc_fsm c'' ! 3 = Fin 0" by simp
  with norm have "\<exists>c''. normalize_maps ?c = Inr c'' \<and> fsm c'' ! 3 = Fin 0 \<and>
      unc_fsm c'' ! 3 = Fin 0"
    by blast
  with skip acc show ?thesis by blast
qed

text \<open>
  The other divisions have no guard. A gain of exactly zero in \<open>adjust_data\<close> gives
  \<open>nan\<close> at every index; a window whose weights are all zero gives \<open>nan\<close> in
  \<open>weighted_mean_filter\<close>; and with a window size of 1 the window is empty and
  \<open>np.average\<close> raises \<open>ZeroDivisionError\<close>.
\<close>

theorem unguarded_division_counterexample:
  "adjust_data [Fin 1] (Fin 0) (Fin 0) [Fin 1] = Inr [NaN] \<and>
   weighted_mean_filter [Fin 1, Fin 2] [Fin 0, Fin 0] 2 = Inr [NaN, NaN] \<and>
   weighted_mean_filter [Fin 1, Fin 2] [Fin 3, Fin 4] 1 = Inl ZeroDivisionError"
  by (simp add: adjust_data_def np_binop_def fsub_def weighted_mean_filter_def
      weighted_mean_at_def slice_def np_average_def np_sum_def ebind_def signed_inf_def
      upt_rec Let_def)

section \<open>Outlier rejection\<close>

lemma zscore_mask: "map (\<lambda>z. fgt z (Fin 1)) (map fabs (zscore a)) = map (excluded a) a"
  by (simp add: zscore_def excluded_def z_score_of_def Let_def)

lemma index_not_map:
  "length ys = length xs \<Longrightarrow>
   index_not ys (map P xs) = Inr (map snd (filter (\<lambda>(x, y). \<not> P x) (zip xs ys)))"
proof -
  assume len: "length ys = length xs"
  then have "map fst (filter (\<lambda>(y, m). \<not> m) (zip ys (map P xs))) =
             map snd (filter (\<lambda>(x, y). \<not> P x) (zip xs ys))"
    by (induction ys xs rule: list_induct2) simp_all
  with len show ?thesis by (simp add: index_not_def)
qed

lemma index_not_self:
  "index_not xs (map P xs) = Inr (filter (\<lambda>x. \<not> P x) xs)"
proof -
  have "map fst (filter (\<lambda>(y, m). \<not> m) (zip xs (map P xs))) = filter (\<lambda>x. \<not> P x) xs"
    by (induction xs) simp_all
  then show ?thesis by (simp add: index_not_def)
qed

lemma sum_list_nonneg_zero:
  "(\<forall>x \<in> set xs. (0::real) \<le> x) \<Longrightarrow> sum_list xs = 0 \<Longrightarrow> x \<in> set xs \<Longrightarrow> x = 0"
  by (induction xs) (auto simp: add_nonneg_eq_0_iff sum_list_nonneg)

lemma variance_nonneg: "0 \<le> variance xs"
  by (auto simp: variance_def mean_def intro!: divide_nonneg_nonneg sum_list_nonneg)

lemma variance_zero:
  assumes "variance xs = 0" and "x \<in> set xs"
  shows "x = mean xs"
proof -
  from assms(2) have ne: "xs \<noteq> []" by auto
  with assms(1) have s0: "sum_list (map (\<lambda>x. (x - mean xs)\<^sup>2) xs) = 0"
    by (simp add: variance_def mean_def[of "map _ _"])
  have nn: "\<forall>y \<in> set (map (\<lambda>x. (x - mean xs)\<^sup>2) xs). 0 \<le> y" by auto
  have mem: "(x - mean xs)\<^sup>2 \<in> set (map (\<lambda>x. (x - mean xs)\<^sup>2) xs)"
    using assms(2) by auto
  from sum_list_nonneg_zero [OF nn s0 mem] show ?thesis by simp
qed

lemma np_std_Fin: "xs \<noteq> [] \<Longrightarrow> np_std (map Fin xs) = Fin (sqrt (variance xs))"
proof -
  assume ne: "xs \<noteq> []"
  have "map (\<lambda>x. square (fabs (fsub x (Fin (mean xs))))) (map Fin xs) =
        map Fin (map (\<lambda>x. (x - mean xs)\<^sup>2) xs)"
    by (simp add: fsub_def square_def power2_eq_square)
  then show ?thesis
    using ne variance_nonneg [of xs]
    by (simp add: np_std_def Let_def np_mean_Fin mean_def [symmetric] variance_def [symmetric]
        del: map_map) (simp add: variance_def mean_def np_mean_Fin)
qed

lemma excluded_Fin:
  assumes "x \<in> set xs"
  shows "excluded (map Fin xs) (Fin x) = (variance xs < (x - mean xs)\<^sup>2)"
proof -
  from assms have ne: "xs \<noteq> []" by auto
  have z: "z_score_of (map Fin xs) (Fin x) = fdiv (Fin (x - mean xs)) (Fin (sqrt (variance xs)))"
    using ne by (simp add: z_score_of_def np_std_Fin np_mean_Fin mean_def fsub_def)
  show ?thesis
  proof (cases "variance xs = 0")
    case True
    with variance_zero [OF True assms] z show ?thesis
      by (simp add: excluded_def fgt_def signed_inf_def)
  next
    case False
    with variance_nonneg [of xs] have pos: "0 < variance xs" by simp
    then have sp: "0 < sqrt (variance xs)" by simp
    have "(1 < \<bar>x - mean xs\<bar> / sqrt (variance xs)) = (sqrt (variance xs) < \<bar>x - mean xs\<bar>)"
      using sp by (simp add: pos_less_divide_eq)
    also have "\<dots> = (variance xs < (x - mean xs)\<^sup>2)"
      using pos by (metis real_sqrt_abs real_sqrt_less_iff)
    finally show ?thesis using z sp by (simp add: excluded_def fgt_def)
  qed
qed


lemma filter_zip_excluded_Fin:
  "filter (\<lambda>(g, t). \<not> excluded (map Fin xs) g) (zip (map Fin xs) ts) =
   map (\<lambda>(x, t). (Fin x, t)) (filter (\<lambda>(x, t). \<not> variance xs < (x - mean xs)\<^sup>2) (zip xs ts))"
proof -
  have "filter ((\<lambda>(g, t). \<not> excluded (map Fin xs) g) \<circ> (\<lambda>(x, t). (Fin x, t))) (zip xs ts) =
        filter (\<lambda>(x, t). \<not> variance xs < (x - mean xs)\<^sup>2) (zip xs ts)"
    by (rule filter_cong) (auto simp: excluded_Fin dest: set_zip_leftD)
  then show ?thesis by (simp add: zip_map1 filter_map)
qed

lemma filter_excluded_Fin:
  "filter (\<lambda>g. \<not> excluded (map Fin xs) g) (map Fin xs) =
   map Fin (filter (\<lambda>x. \<not> variance xs < (x - mean xs)\<^sup>2) xs)"
proof -
  have "filter ((\<lambda>g. \<not> excluded (map Fin xs) g) \<circ> Fin) xs =
        filter (\<lambda>x. \<not> variance xs < (x - mean xs)\<^sup>2) xs"
    by (rule filter_cong) (auto simp: excluded_Fin)
  then show ?thesis by (simp add: filter_map)
qed

lemma example_statistics:
  "mean example_gains = 59 / 10" "variance example_gains = 21609028 / 100000"
  "mean example_offsets = 4" "variance example_offsets = 9"
  by (simp_all add: variance_def mean_def example_gains_def example_offsets_def power2_eq_square)

lemma example_medians:
  "map np_median example_mjd =
     [Fin 55202, Fin 55204, Fin 55205, Fin 55206, Fin 55208, Fin 55210, Fin 55211, Fin 55212,
      Fin 55213, Fin 55214]"
  by (simp add: example_mjd_def np_median_def Let_def)

text \<open>
  C9. For sequences of gains, offsets and per-orbit timestamps of one length,
  \<open>_clean_data\<close> returns, and keeps of the gains exactly the entries whose absolute
  z-score against the gain sequence is not strictly greater than 1, with the median
  timestamps of the same orbits; and likewise, independently, for the offsets.
\<close>

theorem clean_data_excludes:
  assumes "length all_mjd_vals = length all_gain_vals"
    and "length all_offset_vals = length all_gain_vals"
  shows "clean_data all_gain_vals all_offset_vals all_mjd_vals =
     Inr (map snd (filter (\<lambda>(g, t). \<not> excluded all_gain_vals g)
                     (zip all_gain_vals (map np_median all_mjd_vals))),
          map snd (filter (\<lambda>(v, t). \<not> excluded all_offset_vals v)
                     (zip all_offset_vals (map np_median all_mjd_vals))),
          filter (\<lambda>g. \<not> excluded all_gain_vals g) all_gain_vals,
          filter (\<lambda>v. \<not> excluded all_offset_vals v) all_offset_vals)"
  using assms
  by (simp add: clean_data_def Let_def zscore_mask index_not_map index_not_self ebind_def
      del: map_map)

text \<open>
  Of the ten example gains exactly the entry 50 is excluded, and its timestamp with it;
  of the offsets exactly the entry 13.
\<close>

theorem clean_data_excludes_witness:
  "clean_data (map Fin example_gains) (map Fin example_offsets) example_mjd =
     Inr ([Fin 55202, Fin 55204, Fin 55205, Fin 55206, Fin 55210, Fin 55211, Fin 55212,
           Fin 55213, Fin 55214],
          [Fin 55202, Fin 55204, Fin 55205, Fin 55206, Fin 55208, Fin 55210, Fin 55211,
           Fin 55212, Fin 55213],
          map Fin [98 / 100, 101 / 100, 1, 99 / 100, 102 / 100, 1, 97 / 100, 103 / 100, 1],
          map Fin [3, 3, 3, 3, 3, 3, 3, 3, 3])"
proof -
  have len: "length example_mjd = length (map Fin example_gains)"
    "length (map Fin example_offsets) = length (map Fin example_gains)"
    by (simp_all add: example_mjd_def example_gains_def example_offsets_def)
  have tg: "map snd (filter (\<lambda>(g, t). \<not> excluded (map Fin example_gains) g)
                     (zip (map Fin example_gains) (map np_median example_mjd))) =
        [Fin 55202, Fin 55204, Fin 55205, Fin 55206, Fin 55210, Fin 55211, Fin 55212,
           Fin 55213, Fin 55214]"
    unfolding filter_zip_excluded_Fin example_statistics example_medians
    by (simp add: example_gains_def power2_eq_square)
  have to: "map snd (filter (\<lambda>(g, t). \<not> excluded (map Fin example_offsets) g)
                     (zip (map Fin example_offsets) (map np_median example_mjd))) =
        [Fin 55202, Fin 55204, Fin 55205, Fin 55206, Fin 55208, Fin 55210, Fin 55211,
           Fin 55212, Fin 55213]"
    unfolding filter_zip_excluded_Fin example_statistics example_medians
    by (simp add: example_offsets_def power2_eq_square)
  have gm: "filter (\<lambda>g. \<not> excluded (map Fin example_gains) g) (map Fin example_gains) =
     map Fin [98 / 100, 101 / 100, 1, 99 / 100, 102 / 100, 1, 97 / 100, 103 / 100, 1]"
    unfolding filter_excluded_Fin example_statistics
    by (simp add: example_gains_def power2_eq_square)
  have om: "filter (\<lambda>g. \<not> excluded (map Fin example_offsets) g) (map Fin example_offsets) =
     map Fin [3, 3, 3, 3, 3, 3, 3, 3, 3]"
    unfolding filter_excluded_Fin example_statistics
    by (simp add: example_offsets_def power2_eq_square)
  show ?thesis
    unfolding clean_data_excludes [OF len] tg to gm om ..
qed

section \<open>Fitting inside the outer loop\<close>

lemma map_nth_filter_upt:
  "map (\<lambda>i. f (xs ! i)) (filter (\<lambda>i. P (xs ! i)) [0..<length xs]) = map f (filter P xs)"
proof (induction xs rule: rev_induct)
  case Nil
  then show ?case by simp
next
  case (snoc x xs)
  have "filter (\<lambda>i. P ((xs @ [x]) ! i)) [0..<length xs] = filter (\<lambda>i. P (xs ! i)) [0..<length xs]"
    by (rule filter_cong) (simp_all add: nth_append)
  moreover have "map (\<lambda>i. f ((xs @ [x]) ! i)) (filter (\<lambda>i. P (xs ! i)) [0..<length xs]) =
                 map (\<lambda>i. f (xs ! i)) (filter (\<lambda>i. P (xs ! i)) [0..<length xs])"
    by (rule map_cong) (simp_all add: nth_append)
  ultimately show ?case using snoc.IH by simp
qed

lemma masked_rows:
  "masked (entries_to_mask env (map (snd \<circ> snd) (orbit_rows env k))) (map f (orbit_rows env k)) =
   map f (unmasked_rows env k)"
proof -
  let ?rows = "orbit_rows env k"
  let ?bad = "\<lambda>p. p \<in> set (moon_stripe_inds env) \<or> p \<in> set (galaxy_mask_inds env)"
  have "filter (\<lambda>i. i \<notin> set (entries_to_mask env (map (snd \<circ> snd) ?rows))) [0..<length ?rows] =
        filter (\<lambda>i. \<not> ?bad (snd (snd (?rows ! i)))) [0..<length ?rows]"
    by (rule filter_cong) (auto simp: entries_to_mask_def)
  then have "masked (entries_to_mask env (map (snd \<circ> snd) ?rows)) (map f ?rows) =
        map (\<lambda>i. map f ?rows ! i) (filter (\<lambda>i. \<not> ?bad (snd (snd (?rows ! i)))) [0..<length ?rows])"
    by (simp add: masked_def)
  also have "\<dots> = map (\<lambda>i. f (?rows ! i)) (filter (\<lambda>i. \<not> ?bad (snd (snd (?rows ! i)))) [0..<length ?rows])"
    by (rule map_cong) simp_all
  also have "\<dots> = map f (filter (\<lambda>row. \<not> ?bad (snd (snd row))) ?rows)"
    by (rule map_nth_filter_upt)
  finally show ?thesis by (simp add: unmasked_rows_def)
qed


lemma store_fit_Inr:
  assumes "store_fit c k g off n = Inr c'"
  shows "k < length (gains c)" and "k < length (offsets c)"
    and "c' = c\<lparr>gains := (gains c)[k := g], offsets := (offsets c)[k := off],
                  orbit_sizes := (orbit_sizes c)[k := Fin (real n)]\<rparr>"
  using assms by (auto simp: store_fit_def split: if_splits)

lemma case_prod_eq_Inr:
  "((case x of (g, off) \<Rightarrow> f g off) = Inr y) = (\<exists>g off. x = (g, off) \<and> f g off = Inr y)"
  by (cases x) simp

lemma fit_initial_orbit_Inr:
  assumes "fit_initial_orbit M env c k = Inr c'"
  shows "\<exists>zodi g off.
     load_zodi_orbit env k (map (snd \<circ> snd) (orbit_rows env k)) = Inr zodi \<and>
     iterate_fit M (masked (entries_to_mask env (map (snd \<circ> snd) (orbit_rows env k))) zodi)
        (map fst (unmasked_rows env k)) (map (fst \<circ> snd) (unmasked_rows env k)) 1 = Inr (g, off) \<and>
     store_fit c k g off
        (length (masked (entries_to_mask env (map (snd \<circ> snd) (orbit_rows env k))) zodi)) = Inr c'"
  using assms
  unfolding fit_initial_orbit_def load_orbit_data_def Let_def
  by (simp only: prod.case ebind_eq_Inr case_prod_eq_Inr masked_rows) blast


lemma adjusted_data:
  "np_binop fsub (map fst (unmasked_rows env k))
     (map (\<lambda>m. fmul m gk)
        (masked (entries_to_mask env (map (snd \<circ> snd) (orbit_rows env k)))
           (map (\<lambda>p. prev ! p) (map (snd \<circ> snd) (orbit_rows env k))))) =
   Inr (map (\<lambda>row. fsub (fst row) (fmul (prev ! snd (snd row)) gk)) (unmasked_rows env k))"
proof -
  have "map (\<lambda>p. prev ! p) (map (snd \<circ> snd) (orbit_rows env k)) =
        map (\<lambda>row. prev ! snd (snd row)) (orbit_rows env k)"
    by simp
  then have b: "masked (entries_to_mask env (map (snd \<circ> snd) (orbit_rows env k)))
           (map (\<lambda>p. prev ! p) (map (snd \<circ> snd) (orbit_rows env k))) =
        map (\<lambda>row. prev ! snd (snd row)) (unmasked_rows env k)"
    by (simp only: masked_rows)
  show ?thesis
    unfolding b
    by (simp add: np_binop_same_length zip_map_map zip_same_conv_map comp_def)
qed


lemma ebind_Inr: "ebind (Inr x) f = f x"
  by (simp add: ebind_def)

lemma fit_adjusted_orbit_eq:
  "fit_adjusted_orbit M env c k =
     ebind (load_zodi_orbit env k (map (snd \<circ> snd) (orbit_rows env k))) (\<lambda>zodi.
       case fsm_prev c of None \<Rightarrow> Inl AttributeError
       | Some prev \<Rightarrow>
           if \<exists>p \<in> set (map (snd \<circ> snd) (orbit_rows env k)). length prev \<le> p
           then Inl IndexError
           else if length (gains c) \<le> k then Inl IndexError
           else ebind (iterate_fit M
                   (masked (entries_to_mask env (map (snd \<circ> snd) (orbit_rows env k))) zodi)
                   (map (\<lambda>row. fsub (fst row) (fmul (prev ! snd (snd row)) (gains c ! k)))
                      (unmasked_rows env k))
                   (map (fst \<circ> snd) (unmasked_rows env k)) 1)
                 (\<lambda>(gain, offset). store_fit c k gain offset
                    (length (masked (entries_to_mask env (map (snd \<circ> snd) (orbit_rows env k))) zodi))))"
  unfolding fit_adjusted_orbit_def load_orbit_data_def Let_def
  by (simp only: prod.case adjusted_data masked_rows ebind_Inr)


lemma fit_adjusted_orbit_Inr:
  assumes "fit_adjusted_orbit M env c k = Inr c'"
  shows "\<exists>zodi g off prev.
     load_zodi_orbit env k (map (snd \<circ> snd) (orbit_rows env k)) = Inr zodi \<and>
     fsm_prev c = Some prev \<and>
     iterate_fit M (masked (entries_to_mask env (map (snd \<circ> snd) (orbit_rows env k))) zodi)
        (map (\<lambda>row. fsub (fst row) (fmul (prev ! snd (snd row)) (gains c ! k)))
           (unmasked_rows env k))
        (map (fst \<circ> snd) (unmasked_rows env k)) 1 = Inr (g, off) \<and>
     store_fit c k g off
        (length (masked (entries_to_mask env (map (snd \<circ> snd) (orbit_rows env k))) zodi)) = Inr c'"
proof (cases "load_zodi_orbit env k (map (snd \<circ> snd) (orbit_rows env k))")
  case (Inl e)
  with assms show ?thesis by (simp add: fit_adjusted_orbit_eq ebind_def)
next
  case (Inr zodi)
  note z = this
  show ?thesis
  proof (cases "fsm_prev c")
    case None
    with assms z show ?thesis by (simp add: fit_adjusted_orbit_eq ebind_Inr)
  next
    case (Some prev)
    let ?fit = "iterate_fit M (masked (entries_to_mask env (map (snd \<circ> snd) (orbit_rows env k))) zodi)
        (map (\<lambda>row. fsub (fst row) (fmul (prev ! snd (snd row)) (gains c ! k)))
           (unmasked_rows env k))
        (map (fst \<circ> snd) (unmasked_rows env k)) 1"
    from assms z Some have
      "ebind ?fit (\<lambda>(gain, offset). store_fit c k gain offset
          (length (masked (entries_to_mask env (map (snd \<circ> snd) (orbit_rows env k))) zodi))) = Inr c'"
      by (simp add: fit_adjusted_orbit_eq ebind_Inr split: if_splits)
    then obtain g off where "?fit = Inr (g, off)"
      "store_fit c k g off
          (length (masked (entries_to_mask env (map (snd \<circ> snd) (orbit_rows env k))) zodi)) = Inr c'"
      by (cases ?fit) (auto simp: ebind_def)
    with z Some show ?thesis by blast
  qed
qed

lemma fit_orbit_frame:
  assumes "fit_orbit M env c i = Inr c'"
  shows "iter c' = iter c" and "fsm_prev c' = fsm_prev c"
    and "length (gains c') = length (gains c)" and "length (offsets c') = length (offsets c)"
    and "i < length (gains c)" and "i < length (offsets c)"
    and "k \<noteq> i \<Longrightarrow> gains c' ! k = gains c ! k" and "k \<noteq> i \<Longrightarrow> offsets c' ! k = offsets c ! k"
    and "numerator c' = numerator c" and "denominator c' = denominator c"
    and "all_gains c' = all_gains c" and "all_offsets c' = all_offsets c"
proof -
  from assms obtain g off n where "store_fit c i g off n = Inr c'"
    using fit_initial_orbit_Inr [of M env c i c'] fit_adjusted_orbit_Inr [of M env c i c']
    by (auto simp: fit_orbit_def split: if_splits)
  note s = store_fit_Inr [OF this]
  from s show "iter c' = iter c" "fsm_prev c' = fsm_prev c"
    "length (gains c') = length (gains c)" "length (offsets c') = length (offsets c)"
    "i < length (gains c)" "i < length (offsets c)"
    "numerator c' = numerator c" "denominator c' = denominator c"
    "all_gains c' = all_gains c" "all_offsets c' = all_offsets c"
    by simp_all
  from s show "k \<noteq> i \<Longrightarrow> gains c' ! k = gains c ! k" "k \<noteq> i \<Longrightarrow> offsets c' ! k = offsets c ! k"
    by simp_all
qed

lemma fit_orbits_frame:
  assumes "fit_orbits M env c ks = Inr c'"
  shows "iter c' = iter c \<and> fsm_prev c' = fsm_prev c \<and>
         length (gains c') = length (gains c) \<and> length (offsets c') = length (offsets c) \<and>
         numerator c' = numerator c \<and> denominator c' = denominator c \<and>
         all_gains c' = all_gains c \<and> all_offsets c' = all_offsets c \<and>
         (k \<notin> set ks \<longrightarrow> gains c' ! k = gains c ! k \<and> offsets c' ! k = offsets c ! k)"
  using assms
proof (induction ks arbitrary: c)
  case Nil
  then show ?case by simp
next
  case (Cons i ks)
  from Cons.prems obtain c1 where c1: "fit_orbit M env c i = Inr c1"
    and rest: "fit_orbits M env c1 ks = Inr c'"
    by (auto simp: ebind_eq_Inr)
  from Cons.IH [OF rest] fit_orbit_frame [OF c1] show ?case by auto
qed


lemma fit_orbit_fitted:
  assumes "fit_orbit M env c k = Inr c'"
  shows "fitted_with M env (iter c) (fsm_prev c) (gains c ! k) k (gains c' ! k, offsets c' ! k)"
proof (cases "iter c = 0")
  case True
  with assms have "fit_initial_orbit M env c k = Inr c'" by (simp add: fit_orbit_def)
  from fit_initial_orbit_Inr [OF this] obtain zodi g off where
    z: "load_zodi_orbit env k (map (snd \<circ> snd) (orbit_rows env k)) = Inr zodi" and
    f: "iterate_fit M (masked (entries_to_mask env (map (snd \<circ> snd) (orbit_rows env k))) zodi)
        (map fst (unmasked_rows env k)) (map (fst \<circ> snd) (unmasked_rows env k)) 1 = Inr (g, off)" and
    s: "store_fit c k g off
        (length (masked (entries_to_mask env (map (snd \<circ> snd) (orbit_rows env k))) zodi)) = Inr c'"
    by blast
  from store_fit_Inr [OF s] have "gains c' ! k = g" "offsets c' ! k = off" by simp_all
  with z f True show ?thesis by (auto simp: fitted_with_def)
next
  case False
  with assms have "fit_adjusted_orbit M env c k = Inr c'" by (simp add: fit_orbit_def)
  from fit_adjusted_orbit_Inr [OF this] obtain zodi g off prev where
    z: "load_zodi_orbit env k (map (snd \<circ> snd) (orbit_rows env k)) = Inr zodi" and
    p: "fsm_prev c = Some prev" and
    f: "iterate_fit M (masked (entries_to_mask env (map (snd \<circ> snd) (orbit_rows env k))) zodi)
        (map (\<lambda>row. fsub (fst row) (fmul (prev ! snd (snd row)) (gains c ! k)))
           (unmasked_rows env k))
        (map (fst \<circ> snd) (unmasked_rows env k)) 1 = Inr (g, off)" and
    s: "store_fit c k g off
        (length (masked (entries_to_mask env (map (snd \<circ> snd) (orbit_rows env k))) zodi)) = Inr c'"
    by blast
  from store_fit_Inr [OF s] have "gains c' ! k = g" "offsets c' ! k = off" by simp_all
  with z p f False show ?thesis by (auto simp: fitted_with_def)
qed

lemma fit_orbits_fitted:
  assumes "fit_orbits M env c ks = Inr c'" and "distinct ks" and "k \<in> set ks"
  shows "fitted_with M env (iter c) (fsm_prev c) (gains c ! k) k (gains c' ! k, offsets c' ! k)"
  using assms
proof (induction ks arbitrary: c)
  case Nil
  then show ?case by simp
next
  case (Cons i ks)
  from Cons.prems(1) obtain c1 where c1: "fit_orbit M env c i = Inr c1"
    and rest: "fit_orbits M env c1 ks = Inr c'"
    by (auto simp: ebind_eq_Inr)
  show ?case
  proof (cases "k = i")
    case True
    with Cons.prems(2) have "k \<notin> set ks" by simp
    with fit_orbits_frame [OF rest, of k]
    have "gains c' ! k = gains c1 ! k" "offsets c' ! k = offsets c1 ! k" by simp_all
    with fit_orbit_fitted [OF c1] True show ?thesis by simp
  next
    case False
    with Cons.prems have "k \<in> set ks" "distinct ks" by simp_all
    from Cons.IH [OF rest this(2) this(1)] fit_orbit_frame [OF c1] False
    show ?thesis by simp
  qed
qed

lemma add_file_frame:
  assumes "add_file env c j g off = Inr c'"
  shows "gains c' = gains c \<and> offsets c' = offsets c \<and> iter c' = iter c \<and>
         fsm_prev c' = fsm_prev c"
  using assms
  by (auto simp: add_file_def Let_def split_def ebind_eq_Inr split: if_splits)

lemma add_orbits_frame:
  assumes "add_orbits env c js = Inr c'"
  shows "gains c' = gains c \<and> offsets c' = offsets c \<and> iter c' = iter c \<and>
         fsm_prev c' = fsm_prev c"
  using assms
proof (induction js arbitrary: c)
  case Nil
  then show ?case by simp
next
  case (Cons j js)
  from Cons.prems obtain c1 where c1: "add_file env c j (gains c ! j) (offsets c ! j) = Inr c1"
    and rest: "add_orbits env c1 js = Inr c'"
    by (auto simp: ebind_eq_Inr split: if_splits)
  from Cons.IH [OF rest] add_file_frame [OF c1] show ?case by simp
qed

lemma normalize_maps_frame:
  assumes "normalize_maps c = Inr c'"
  shows "gains c' = gains c \<and> offsets c' = offsets c \<and> iter c' = iter c \<and>
         numerator c' = numerator c \<and> denominator c' = denominator c"
  using assms by (auto simp: normalize_maps_def ebind_eq_Inr)

text \<open>
  C5. Let one pass of the outer loop over \<open>n\<close> orbits lead from \<open>c\<close> to \<open>c'\<close>, and \<open>k < n\<close>.
  The pass has the index \<open>iter c\<close> and the next one the index \<open>iter c + 1\<close>. The gain and
  offset that it stores for orbit \<open>k\<close> are what the fitter returns, on iteration 0, for
  the masked raw samples, and on a later iteration for the masked raw samples minus
  the previous map's value at each sample's pixel times \<open>gains c ! k\<close>, the gain the
  previous pass stored for this orbit; the fits of the other orbits in the same pass
  have not touched it. The map that the pass normalises is the previous map of the
  next pass, and the gains it stored are the gains the next pass starts from.
\<close>

theorem outer_iteration_fit_data:
  assumes "outer_iteration M env npix n c = Inr c'" and "k < n"
  shows "iter c' = Suc (iter c) \<and>
    (\<exists>zodi. load_zodi_orbit env k (map (snd \<circ> snd) (orbit_rows env k)) = Inr zodi \<and>
        (iter c = 0 \<longrightarrow>
           iterate_fit M
             (masked (entries_to_mask env (map (snd \<circ> snd) (orbit_rows env k))) zodi)
             (map fst (unmasked_rows env k))
             (map (fst \<circ> snd) (unmasked_rows env k)) 1 = Inr (gains c' ! k, offsets c' ! k)) \<and>
        (0 < iter c \<longrightarrow>
           (\<exists>prev. fsm_prev c = Some prev \<and>
              iterate_fit M
                (masked (entries_to_mask env (map (snd \<circ> snd) (orbit_rows env k))) zodi)
                (map (\<lambda>row. fsub (fst row) (fmul (prev ! snd (snd row)) (gains c ! k)))
                   (unmasked_rows env k))
                (map (fst \<circ> snd) (unmasked_rows env k)) 1 =
              Inr (gains c' ! k, offsets c' ! k)))) \<and>
    (\<exists>c1 c3 c4. fit_orbits M env c [0..<n] = Inr c1 \<and>
        add_orbits env (c1\<lparr>all_gains := all_gains c1 @ [gains c1],
                          all_offsets := all_offsets c1 @ [offsets c1]\<rparr>) [0..<n] = Inr c3 \<and>
        normalize_maps c3 = Inr c4 \<and> fsm_prev c' = Some (fsm c4) \<and>
        gains c' = gains c1 \<and> offsets c' = offsets c1)"
proof -
  from assms(1) obtain c1 c3 c4 where
    c1: "fit_orbits M env c [0..<n] = Inr c1" and
    c3: "add_orbits env (c1\<lparr>all_gains := all_gains c1 @ [gains c1],
                            all_offsets := all_offsets c1 @ [offsets c1]\<rparr>) [0..<n] = Inr c3" and
    c4: "normalize_maps c3 = Inr c4" and
    c': "c' = set_output_filenames npix (c4\<lparr>fsm_prev := Some (fsm c4), iter := iter c4 + 1\<rparr>)"
    by (auto simp: outer_iteration_def Let_def ebind_eq_Inr)
  from add_orbits_frame [OF c3] normalize_maps_frame [OF c4] c'
  have g: "gains c' = gains c1" "offsets c' = offsets c1" "iter c' = Suc (iter c1)"
    "fsm_prev c' = Some (fsm c4)"
    by (simp_all add: set_output_filenames_def)
  from fit_orbits_frame [OF c1, of k] have it: "iter c1 = iter c" by simp
  from assms(2) have "k \<in> set [0..<n]" by simp
  from fit_orbits_fitted [OF c1 _ this]
  have "fitted_with M env (iter c) (fsm_prev c) (gains c ! k) k (gains c1 ! k, offsets c1 ! k)"
    by simp
  with g it have "iter c' = Suc (iter c) \<and>
    (\<exists>zodi. load_zodi_orbit env k (map (snd \<circ> snd) (orbit_rows env k)) = Inr zodi \<and>
        (iter c = 0 \<longrightarrow>
           iterate_fit M
             (masked (entries_to_mask env (map (snd \<circ> snd) (orbit_rows env k))) zodi)
             (map fst (unmasked_rows env k))
             (map (fst \<circ> snd) (unmasked_rows env k)) 1 = Inr (gains c' ! k, offsets c' ! k)) \<and>
        (0 < iter c \<longrightarrow>
           (\<exists>prev. fsm_prev c = Some prev \<and>
              iterate_fit M
                (masked (entries_to_mask env (map (snd \<circ> snd) (orbit_rows env k))) zodi)
                (map (\<lambda>row. fsub (fst row) (fmul (prev ! snd (snd row)) (gains c ! k)))
                   (unmasked_rows env k))
                (map (fst \<circ> snd) (unmasked_rows env k)) 1 =
              Inr (gains c' ! k, offsets c' ! k))))"
    unfolding fitted_with_def by simp
  moreover from c1 c3 c4 g have "\<exists>c1 c3 c4. fit_orbits M env c [0..<n] = Inr c1 \<and>
        add_orbits env (c1\<lparr>all_gains := all_gains c1 @ [gains c1],
                          all_offsets := all_offsets c1 @ [offsets c1]\<rparr>) [0..<n] = Inr c3 \<and>
        normalize_maps c3 = Inr c4 \<and> fsm_prev c' = Some (fsm c4) \<and>
        gains c' = gains c1 \<and> offsets c' = offsets c1"
    by blast
  ultimately show ?thesis by blast
qed

lemma example_first_pass:
  "outer_iteration const_minimizer example_env 4 2 (start 4 2) =
     Inr \<lparr>iter = 1, fsm = [Fin 0, Fin 0, Fin 0, Fin 0], unc_fsm = [Fin 0, Fin 0, Fin 0, Fin 0],
          fsm_prev = Some [Fin 1, Fin 0, Fin 0, Fin 0], numerator = [Fin 1, Fin 0, Fin 0, Fin 0],
          denominator = [Fin 1, Fin 0, Fin (1 / 4), Fin 0], gains = [Fin 2, Fin 2],
          offsets = [Fin 3, Fin 3], orbit_sizes = [Fin 3, Fin 2], all_gains = [[Fin 2, Fin 2]],
          all_offsets = [[Fin 3, Fin 3]]\<rparr>"
  by code_simp

lemma example_second_pass:
  "outer_iteration const_minimizer example_env 4 2
     \<lparr>iter = 1, fsm = [Fin 0, Fin 0, Fin 0, Fin 0], unc_fsm = [Fin 0, Fin 0, Fin 0, Fin 0],
      fsm_prev = Some [Fin 1, Fin 0, Fin 0, Fin 0], numerator = [Fin 1, Fin 0, Fin 0, Fin 0],
      denominator = [Fin 1, Fin 0, Fin (1 / 4), Fin 0], gains = [Fin 2, Fin 2],
      offsets = [Fin 3, Fin 3], orbit_sizes = [Fin 3, Fin 2], all_gains = [[Fin 2, Fin 2]],
      all_offsets = [[Fin 3, Fin 3]]\<rparr> =
     Inr \<lparr>iter = 2, fsm = [Fin 0, Fin 0, Fin 0, Fin 0], unc_fsm = [Fin 0, Fin 0, Fin 0, Fin 0],
          fsm_prev = Some [Fin 1, Fin 0, Fin 0, Fin 0], numerator = [Fin 2, Fin 0, Fin 0, Fin 0],
          denominator = [Fin 2, Fin 0, Fin (1 / 2), Fin 0], gains = [Fin 2, Fin 2],
          offsets = [Fin 3, Fin 3], orbit_sizes = [Fin 3, Fin 2],
          all_gains = [[Fin 2, Fin 2], [Fin 2, Fin 2]],
          all_offsets = [[Fin 3, Fin 3], [Fin 3, Fin 3]]\<rparr>"
  by code_simp

lemma example_unmasked_rows:
  "unmasked_rows example_env 0 = [(Fin 7, Fin 2, 0), (Fin 4, Fin 0, 1), (Fin 3, Fin 4, 2)]"
  by (simp add: unmasked_rows_def example_env_def)

lemma example_template:
  "load_zodi_orbit example_env 0 (map (snd \<circ> snd) (orbit_rows example_env 0)) =
     Inr [Fin 1, Fin 5, Fin 2, Fin 3]"
  "masked (entries_to_mask example_env (map (snd \<circ> snd) (orbit_rows example_env 0)))
     [Fin 1, Fin 5, Fin 2, Fin 3] = [Fin 1, Fin 5, Fin 2]"
  by (simp_all add: load_zodi_orbit_def entries_to_mask_def masked_def example_env_def upt_rec)

theorem outer_iteration_fit_data_witness:
  "\<exists>c1 c2. outer_iteration const_minimizer example_env 4 2 (start 4 2) = Inr c1 \<and>
     outer_iteration const_minimizer example_env 4 2 c1 = Inr c2 \<and>
     iter (start 4 2) = 0 \<and> iter c1 = 1 \<and> iter c2 = 2 \<and>
     fsm_prev c1 = Some [Fin 1, Fin 0, Fin 0, Fin 0] \<and> gains c1 ! 0 = Fin 2 \<and>
     iterate_fit const_minimizer [Fin 1, Fin 5, Fin 2] [Fin 7, Fin 4, Fin 3]
        [Fin 2, Fin 0, Fin 4] 1 = Inr (gains c1 ! 0, offsets c1 ! 0) \<and>
     iterate_fit const_minimizer [Fin 1, Fin 5, Fin 2] [Fin 5, Fin 4, Fin 3]
        [Fin 2, Fin 0, Fin 4] 1 = Inr (gains c2 ! 0, offsets c2 ! 0)"
proof -
  let ?c1 = "\<lparr>iter = 1, fsm = [Fin 0, Fin 0, Fin 0, Fin 0], unc_fsm = [Fin 0, Fin 0, Fin 0, Fin 0],
      fsm_prev = Some [Fin 1, Fin 0, Fin 0, Fin 0], numerator = [Fin 1, Fin 0, Fin 0, Fin 0],
      denominator = [Fin 1, Fin 0, Fin (1 / 4), Fin 0], gains = [Fin 2, Fin 2],
      offsets = [Fin 3, Fin 3], orbit_sizes = [Fin 3, Fin 2], all_gains = [[Fin 2, Fin 2]],
      all_offsets = [[Fin 3, Fin 3]]\<rparr>"
  let ?c2 = "\<lparr>iter = 2, fsm = [Fin 0, Fin 0, Fin 0, Fin 0], unc_fsm = [Fin 0, Fin 0, Fin 0, Fin 0],
          fsm_prev = Some [Fin 1, Fin 0, Fin 0, Fin 0], numerator = [Fin 2, Fin 0, Fin 0, Fin 0],
          denominator = [Fin 2, Fin 0, Fin (1 / 2), Fin 0], gains = [Fin 2, Fin 2],
          offsets = [Fin 3, Fin 3], orbit_sizes = [Fin 3, Fin 2],
          all_gains = [[Fin 2, Fin 2], [Fin 2, Fin 2]],
          all_offsets = [[Fin 3, Fin 3], [Fin 3, Fin 3]]\<rparr>"
  have k: "(0::nat) < 2" by simp
  have it0: "iter (start 4 2) = 0"
    by (simp add: start_def init_def set_output_filenames_def Let_def)
  from outer_iteration_fit_data [OF example_first_pass k] it0
  have a: "iterate_fit const_minimizer [Fin 1, Fin 5, Fin 2] [Fin 7, Fin 4, Fin 3]
        [Fin 2, Fin 0, Fin 4] 1 = Inr (gains ?c1 ! 0, offsets ?c1 ! 0)"
    by (auto simp: example_unmasked_rows example_template)
  from outer_iteration_fit_data [OF example_second_pass k]
  have b: "iterate_fit const_minimizer [Fin 1, Fin 5, Fin 2] [Fin 5, Fin 4, Fin 3]
        [Fin 2, Fin 0, Fin 4] 1 = Inr (gains ?c2 ! 0, offsets ?c2 ! 0)"
    by (auto simp: example_unmasked_rows example_template fsub_def)
  from a b it0 example_first_pass example_second_pass show ?thesis
    by (intro exI [of _ ?c1] exI [of _ ?c2]) simp
qed

section \<open>The accumulation buffers across outer iterations\<close>

text \<open>
  One pass of the outer loop accumulates onto the buffers it is given and hands the
  accumulated buffers on: nothing in \<open>run\<close> zero-fills them again.
\<close>

lemma outer_iteration_buffers:
  assumes "outer_iteration M env npix n c = Inr c'"
  shows "\<exists>c1 c3. fit_orbits M env c [0..<n] = Inr c1 \<and>
           numerator c1 = numerator c \<and> denominator c1 = denominator c \<and>
           add_orbits env (c1\<lparr>all_gains := all_gains c1 @ [gains c1],
                             all_offsets := all_offsets c1 @ [offsets c1]\<rparr>) [0..<n] = Inr c3 \<and>
           numerator c' = numerator c3 \<and> denominator c' = denominator c3"
proof -
  from assms obtain c1 c3 c4 where
    c1: "fit_orbits M env c [0..<n] = Inr c1" and
    c3: "add_orbits env (c1\<lparr>all_gains := all_gains c1 @ [gains c1],
                            all_offsets := all_offsets c1 @ [offsets c1]\<rparr>) [0..<n] = Inr c3" and
    c4: "normalize_maps c3 = Inr c4" and
    c': "c' = set_output_filenames npix (c4\<lparr>fsm_prev := Some (fsm c4), iter := iter c4 + 1\<rparr>)"
    by (auto simp: outer_iteration_def Let_def ebind_eq_Inr)
  from normalize_maps_frame [OF c4] c'
  have "numerator c' = numerator c3" "denominator c' = denominator c3"
    by (simp_all add: set_output_filenames_def)
  moreover from fit_orbits_frame [OF c1, of 0]
  have "numerator c1 = numerator c" "denominator c1 = denominator c" by simp_all
  ultimately show ?thesis using c1 c3 by blast
qed

lemma exact_first_pass:
  "run_with zero_cost_minimizer exact_env 2 3 1 (init 2) =
     Inr \<lparr>iter = 1, fsm = [Fin 0, Fin 0], unc_fsm = [Fin 0, Fin 0],
          fsm_prev = Some [Fin 0, Fin 0], numerator = [Fin 0, Fin 0],
          denominator = [Fin 3, Fin 3], gains = [Fin 1, Fin 1, Fin 1],
          offsets = [Fin 0, Fin 0, Fin 0], orbit_sizes = [Fin 2, Fin 2, Fin 2],
          all_gains = [[Fin 1, Fin 1, Fin 1]], all_offsets = [[Fin 0, Fin 0, Fin 0]]\<rparr>"
  by code_simp

lemma exact_second_pass:
  "run_with zero_cost_minimizer exact_env 2 3 2 (init 2) =
     Inr \<lparr>iter = 2, fsm = [Fin 0, Fin 0], unc_fsm = [Fin 0, Fin 0],
          fsm_prev = Some [Fin 0, Fin 0], numerator = [Fin 0, Fin 0],
          denominator = [Fin 6, Fin 6], gains = [Fin 1, Fin 1, Fin 1],
          offsets = [Fin 0, Fin 0, Fin 0], orbit_sizes = [Fin 2, Fin 2, Fin 2],
          all_gains = [[Fin 1, Fin 1, Fin 1], [Fin 1, Fin 1, Fin 1]],
          all_offsets = [[Fin 0, Fin 0, Fin 0], [Fin 0, Fin 0, Fin 0]]\<rparr>"
  by code_simp

lemma exact_second_pass_fresh:
  "outer_iteration zero_cost_minimizer exact_env 2 3
     \<lparr>iter = 1, fsm = [Fin 0, Fin 0], unc_fsm = [Fin 0, Fin 0],
      fsm_prev = Some [Fin 0, Fin 0], numerator = [Fin 0, Fin 0],
      denominator = [Fin 0, Fin 0], gains = [Fin 1, Fin 1, Fin 1],
      offsets = [Fin 0, Fin 0, Fin 0], orbit_sizes = [Fin 2, Fin 2, Fin 2],
      all_gains = [[Fin 1, Fin 1, Fin 1]], all_offsets = [[Fin 0, Fin 0, Fin 0]]\<rparr> =
     Inr \<lparr>iter = 2, fsm = [Fin 0, Fin 0], unc_fsm = [Fin 0, Fin 0],
          fsm_prev = Some [Fin 0, Fin 0], numerator = [Fin 0, Fin 0],
          denominator = [Fin 3, Fin 3], gains = [Fin 1, Fin 1, Fin 1],
          offsets = [Fin 0, Fin 0, Fin 0], orbit_sizes = [Fin 2, Fin 2, Fin 2],
          all_gains = [[Fin 1, Fin 1, Fin 1], [Fin 1, Fin 1, Fin 1]],
          all_offsets = [[Fin 0, Fin 0, Fin 0], [Fin 0, Fin 0, Fin 0]]\<rparr>"
  by code_simp

text \<open>
  C1 at a concrete input: three orbits with the same two samples, each equal to its
  template. After the first pass the state that the second pass starts from has the
  denominator 3 at both pixels, not 0. After the second pass the denominator is 6, and
  normalising these buffers gives the uncertainty 1/6, where the three segments of one
  pass alone give 3 and 1/3: started on zero-filled buffers, the second pass ends with
  the denominator 3.
\<close>

theorem buffers_carry_over:
  "\<exists>c1 c2 c2' c4.
     run_with zero_cost_minimizer exact_env 2 3 1 (init 2) = Inr c1 \<and>
     numerator c1 = [Fin 0, Fin 0] \<and> denominator c1 = [Fin 3, Fin 3] \<and>
     run_with zero_cost_minimizer exact_env 2 3 2 (init 2) = Inr c2 \<and>
     denominator c2 = [Fin 6, Fin 6] \<and>
     normalize_maps c2 = Inr c4 \<and> unc_fsm c4 = [Fin (1 / 6), Fin (1 / 6)] \<and>
     outer_iteration zero_cost_minimizer exact_env 2 3
       (c1\<lparr>numerator := [Fin 0, Fin 0], denominator := [Fin 0, Fin 0]\<rparr>) = Inr c2' \<and>
     denominator c2' = [Fin 3, Fin 3]"
proof -
  have "normalize_maps
     \<lparr>iter = 2, fsm = [Fin 0, Fin 0], unc_fsm = [Fin 0, Fin 0],
          fsm_prev = Some [Fin 0, Fin 0], numerator = [Fin 0, Fin 0],
          denominator = [Fin 6, Fin 6], gains = [Fin 1, Fin 1, Fin 1],
          offsets = [Fin 0, Fin 0, Fin 0], orbit_sizes = [Fin 2, Fin 2, Fin 2],
          all_gains = [[Fin 1, Fin 1, Fin 1], [Fin 1, Fin 1, Fin 1]],
          all_offsets = [[Fin 0, Fin 0, Fin 0], [Fin 0, Fin 0, Fin 0]]\<rparr> =
     Inr \<lparr>iter = 2, fsm = [Fin 0, Fin 0], unc_fsm = [Fin (1 / 6), Fin (1 / 6)],
          fsm_prev = Some [Fin 0, Fin 0], numerator = [Fin 0, Fin 0],
          denominator = [Fin 6, Fin 6], gains = [Fin 1, Fin 1, Fin 1],
          offsets = [Fin 0, Fin 0, Fin 0], orbit_sizes = [Fin 2, Fin 2, Fin 2],
          all_gains = [[Fin 1, Fin 1, Fin 1], [Fin 1, Fin 1, Fin 1]],
          all_offsets = [[Fin 0, Fin 0, Fin 0], [Fin 0, Fin 0, Fin 0]]\<rparr>"
    by code_simp
  with exact_first_pass exact_second_pass exact_second_pass_fresh show ?thesis
    by simp
qed

end
